theory Spec2Isabelle
  imports Main "HOL-Library.Word" "HOL-Library.Signed_Division" "HOL-Library.AList"
    "HOL-Library.Multiset"
begin

section \<open>Go base types\<close>

text \<open>
  Go's \<open>int\<close> (on the 64-bit platforms the library targets) and \<open>int64\<close> are 64-bit
  two's-complement words. A \<open>time.Duration\<close> is an \<open>int64\<close> count of nanoseconds.
  A \<open>float64\<close> is only ever passed through by this code, so it is kept as its
  IEEE-754 bit pattern.
\<close>

type_synonym go_int = "64 word"
type_synonym duration = "64 word"
type_synonym float64 = "64 word"

text \<open>A Go \<open>error\<close> value, identified by its message.\<close>

datatype error = Error string

definition Millisecond :: duration where
  "Millisecond = 1000000"

definition Second :: duration where
  "Second = 1000000000"

text \<open>Go's \<open>/\<close> on signed integers truncates towards zero.\<close>

definition go_div :: "64 word \<Rightarrow> 64 word \<Rightarrow> 64 word" where
  "go_div a b = word_of_int (sint a sdiv sint b)"

section \<open>constants.go\<close>

definition defaultKeepAlive :: duration where
  "defaultKeepAlive = Second * 30"

definition defaultIdleConnectionTimeout :: duration where
  "defaultIdleConnectionTimeout = Second * 90"

definition defaultSleepWindowInMillis :: go_int where
  "defaultSleepWindowInMillis = 5000"

definition requestIDHeader :: string where
  "requestIDHeader = ''X-requestId''"

definition idParam :: string where
  "idParam = ''id''"

section \<open>Backoff policy and retrier selection\<close>

text \<open>
  The fields that \<open>getRetrier\<close> reads from a \<open>*BackoffPolicy\<close>: two pointers, each
  possibly nil, to a constant and to an exponential backoff configuration.
\<close>

record ConstantBackoff =
  interval :: duration
  maximumJitterInterval :: duration

record ExponentialBackoff =
  initialTimeout :: duration
  maxTimeout :: duration
  exponentFactor :: float64
  expMaximumJitterInterval :: duration

record BackoffPolicy =
  constantBackoff :: "ConstantBackoff option"
  exponentialBackoff :: "ExponentialBackoff option"

text \<open>
  The values of heimdall that \<open>getRetrier\<close> constructs:
  \<open>heimdall.NewConstantBackoff\<close>, \<open>heimdall.NewExponentialBackoff\<close>,
  \<open>heimdall.NewRetrier\<close> and \<open>heimdall.NewNoRetrier\<close>.
\<close>

datatype backoff =
  NewConstantBackoff duration duration
| NewExponentialBackoff duration duration float64 duration

datatype retriable = NewRetrier backoff | NewNoRetrier

section \<open>Go maps and the heap\<close>

text \<open>
  A Go map is a reference: assigning it copies the reference, and a write through one
  reference is seen through every other. The contents of a map are kept as an
  association list read with \<open>map_of\<close> and written with \<open>AList.update\<close> (so a key has
  one value); the maps of type \<open>map[string]string\<close> live in a heap, and a field of
  that type holds an address, or \<open>None\<close> for the nil map.
\<close>

type_synonym strmap = "(string \<times> string) list"
type_synonym addr = nat
type_synonym heap = "strmap list"

text \<open>\<open>make(map[string]string)\<close> and map literals: a new map at a fresh address.\<close>

definition alloc :: "strmap \<Rightarrow> heap \<Rightarrow> addr \<times> heap" where
  "alloc m h = (length h, h @ [m])"

text \<open>
  Reading the map behind a reference. A nil map reads as the empty map; so does an
  address that no allocation returned, which a Go program cannot hold.
\<close>

definition deref :: "heap \<Rightarrow> addr option \<Rightarrow> strmap" where
  "deref h r = (case r of None \<Rightarrow> [] | Some a \<Rightarrow> (if a < length h then h ! a else []))"

text \<open>\<open>m[k] = v\<close> on the map at address \<open>a\<close>.\<close>

definition store :: "addr \<Rightarrow> string \<Rightarrow> string \<Rightarrow> heap \<Rightarrow> heap" where
  "store a k v h = (if a < length h then h[a := AList.update k v (h ! a)] else h)"

text \<open>
  \<open>for k, v := range m\<close> visits every key once, in an order that Go leaves to the
  runtime. What the loops of this code build while ranging over a map does not depend on
  the order: one builds another map, the others collect query parameters and header
  values, which are kept as multisets for that reason. The model visits the keys in the
  order of the association list.
\<close>

definition entries :: "('k \<times> 'v) list \<Rightarrow> ('k \<times> 'v) list" where
  "entries m = AList.clearjunk m"

section \<open>Untyped configuration values\<close>

text \<open>
  A configuration map is a \<open>map[string]interface{}\<close>. The code looks at its values only
  through the conversions of \<open>github.com/spf13/cast\<close>, which are not part of this
  repository: they are a parameter of the construction functions, over any type \<open>'v\<close>
  of values. Each conversion returns the zero value together with every error, which
  is what the callers that drop the error then store.
\<close>

record 'v cast =
  ToIntE :: "'v \<Rightarrow> error + go_int"
  ToStringE :: "'v \<Rightarrow> error + string"
  ToStringMapE :: "'v \<Rightarrow> error + (string \<times> 'v) list"

type_synonym 'v config_map = "(string \<times> 'v) list"

definition getConfigOptionInt :: "'v cast \<Rightarrow> 'v config_map \<Rightarrow> string \<Rightarrow> error + go_int" where
  "getConfigOptionInt c options key =
     (case map_of options key of
        Some val \<Rightarrow> ToIntE c val
      | None \<Rightarrow> Inl (Error (''missing '' @ key)))"

definition getConfigOptionMap :: "'v cast \<Rightarrow> 'v config_map \<Rightarrow> string \<Rightarrow> error + 'v config_map" where
  "getConfigOptionMap c options key =
     (case map_of options key of
        Some val \<Rightarrow> ToStringMapE c val
      | None \<Rightarrow> Inl (Error (''missing '' @ key)))"

definition getConfigOptionString :: "'v cast \<Rightarrow> 'v config_map \<Rightarrow> string \<Rightarrow> error + string" where
  "getConfigOptionString c options key =
     (case map_of options key of
        Some val \<Rightarrow> ToStringE c val
      | None \<Rightarrow> Inl (Error (''missing '' @ key)))"

text \<open>The value of a \<open>(v, err)\<close> result when the error is dropped (\<open>x, _ = f()\<close>).\<close>

definition int_value :: "error + go_int \<Rightarrow> go_int" where
  "int_value r = (case r of Inl _ \<Rightarrow> 0 | Inr i \<Rightarrow> i)"

definition string_value :: "error + string \<Rightarrow> string" where
  "string_value r = (case r of Inl _ \<Rightarrow> [] | Inr s \<Rightarrow> s)"

text \<open>
  \<open>cast.ToString\<close> is \<open>ToStringE\<close> with the error dropped, and
  \<open>cast.ToStringMapString\<close> on a \<open>map[string]interface{}\<close> builds a new map with the
  same keys and every value passed through \<open>cast.ToString\<close>.
\<close>

definition ToString :: "'v cast \<Rightarrow> 'v \<Rightarrow> string" where
  "ToString c v = string_value (ToStringE c v)"

definition ToStringMapString :: "'v cast \<Rightarrow> 'v config_map \<Rightarrow> strmap" where
  "ToStringMapString c m = map (\<lambda>(k, v). (k, ToString c v)) (entries m)"

section \<open>hystrixconfig.go\<close>

record HystrixConfig =
  hystrixTimeout :: duration
  maxConcurrentRequests :: go_int
  errorPercentThreshold :: go_int
  sleepWindowInMillis :: go_int
  requestVolumeThreshold :: go_int
  fallback :: "nat option"

definition NewHystrixConfig :: "'v cast \<Rightarrow> 'v config_map \<Rightarrow> HystrixConfig" where
  "NewHystrixConfig c configMap =
     \<lparr> hystrixTimeout =
         (case getConfigOptionInt c configMap ''hystrixtimeoutinmillis'' of
            Inr t \<Rightarrow> t * Millisecond
          | Inl _ \<Rightarrow> 0),
       maxConcurrentRequests = int_value (getConfigOptionInt c configMap ''maxconcurrentrequests''),
       errorPercentThreshold = int_value (getConfigOptionInt c configMap ''errorpercentthreshold''),
       sleepWindowInMillis =
         (case getConfigOptionInt c configMap ''sleepwindowinmillis'' of
            Inr w \<Rightarrow> w
          | Inl _ \<Rightarrow> defaultSleepWindowInMillis),
       requestVolumeThreshold = int_value (getConfigOptionInt c configMap ''requestvolumethreshold''),
       fallback = None \<rparr>"

section \<open>requestconfig.go\<close>

text \<open>
  The transport that \<open>NewRequestConfig\<close> builds is a \<open>*http.Transport\<close>; the dialer's
  two settings are kept with it. A \<open>http.RoundTripper\<close> is that, or some other
  implementation supplied by the caller.
\<close>

datatype tls_version = VersionTLS10 | VersionTLS11 | VersionTLS12 | VersionTLS13

datatype proxy_func = ProxyFromEnvironment | ProxyURL string

record http_Transport =
  Proxy :: "proxy_func option"
  DialerTimeout :: duration
  DialerKeepAlive :: duration
  ForceAttemptHTTP2 :: bool
  MaxIdleConns :: go_int
  IdleConnTimeout :: duration
  TLSHandshakeTimeout :: duration
  ExpectContinueTimeout :: duration
  MaxIdleConnsPerHost :: go_int
  TLSClientConfig :: "tls_version option"

datatype round_tripper = HTTPTransport http_Transport | OtherRoundTripper nat

record RequestConfig =
  name :: string  "method" :: string  url :: string
  timeout :: duration
  connectTimeout :: duration
  keepAlive :: duration
  maxIdleConnections :: go_int
  idleConnectionTimeout :: duration
  tlsHandshakeTimeout :: duration
  expectContinueTimeout :: duration
  proxyURL :: string
  retryCount :: go_int
  backoffPolicy :: "BackoffPolicy option"
  hystrixConfig :: "HystrixConfig option"
  transport :: "round_tripper option"
  headers :: "addr option"
  checkRedirect :: "nat option"

text \<open>The zero value of the struct with only the name set.\<close>

definition zeroRequestConfig :: "string \<Rightarrow> RequestConfig" where
  "zeroRequestConfig n =
     \<lparr> name = n, method = [], url = [], timeout = 0, connectTimeout = 0, keepAlive = 0,
       maxIdleConnections = 0, idleConnectionTimeout = 0, tlsHandshakeTimeout = 0,
       expectContinueTimeout = 0, proxyURL = [], retryCount = 0, backoffPolicy = None,
       hystrixConfig = None, transport = None, headers = None, checkRedirect = None \<rparr>"

text \<open>A duration field read from the map in milliseconds, or the given fallback.\<close>

definition millisOr :: "'v cast \<Rightarrow> 'v config_map \<Rightarrow> string \<Rightarrow> duration \<Rightarrow> duration" where
  "millisOr c configMap key d =
     (case getConfigOptionInt c configMap key of
        Inr t \<Rightarrow> t * Millisecond
      | Inl _ \<Rightarrow> d)"

definition tlsConfigOf :: "string \<Rightarrow> tls_version option" where
  "tlsConfigOf tlsMinVersion =
     (if tlsMinVersion = ''1.0'' then Some VersionTLS10
      else if tlsMinVersion = ''1.1'' then Some VersionTLS11
      else if tlsMinVersion = ''1.2'' then Some VersionTLS12
      else if tlsMinVersion = ''1.3'' then Some VersionTLS13
      else None)"

text \<open>
  \<open>NewRequestConfig\<close>. Its parameters besides the name and the map: the conversions
  of cast; \<open>NewBackoffPolicy\<close>, which is defined in a file of the repository that is not
  at hand and is taken as it comes; the value of \<open>runtime.GOMAXPROCS(0)\<close>; and the heap,
  in which the header map is allocated.
\<close>

definition NewRequestConfig ::
  "'v cast \<Rightarrow> ('v config_map \<Rightarrow> BackoffPolicy option) \<Rightarrow> go_int \<Rightarrow>
   string \<Rightarrow> 'v config_map option \<Rightarrow> heap \<Rightarrow> RequestConfig \<times> heap" where
  "NewRequestConfig c NewBackoffPolicy GOMAXPROCS n configMapOpt h =
     (case configMapOpt of
        None \<Rightarrow> (zeroRequestConfig n, h)
      | Some configMap \<Rightarrow>
          (let rc_timeout = millisOr c configMap ''timeoutinmillis'' 0;
               rc_connectTimeout =
                 millisOr c configMap ''connecttimeoutinmillis'' (go_div rc_timeout 10);
               rc_keepAlive = millisOr c configMap ''keepaliveinmillis'' defaultKeepAlive;
               rc_maxIdleConnections =
                 (case getConfigOptionInt c configMap ''maxidleconnections'' of
                    Inr i \<Rightarrow> i
                  | Inl _ \<Rightarrow> GOMAXPROCS + 1);
               rc_idleConnectionTimeout =
                 millisOr c configMap ''idleconnectiontimeoutinmillis'' defaultIdleConnectionTimeout;
               rc_tlsHandshakeTimeout = millisOr c configMap ''tlshandshaketimeoutinmillis'' 0;
               rc_expectContinueTimeout = millisOr c configMap ''expectcontinuetimeoutinmillis'' 0;
               (rc_headers, h') =
                 (case getConfigOptionMap c configMap ''headers'' of
                    Inr hm \<Rightarrow> (let (a, h') = alloc (ToStringMapString c hm) h in (Some a, h'))
                  | Inl _ \<Rightarrow> (None, h));
               tlsConfig = tlsConfigOf (string_value (getConfigOptionString c configMap ''tlsminversion''))
           in (\<lparr> name = n, method = string_value (getConfigOptionString c configMap ''method''),
                  url = string_value (getConfigOptionString c configMap ''url''),
                  timeout = rc_timeout,
                  connectTimeout = rc_connectTimeout,
                  keepAlive = rc_keepAlive,
                  maxIdleConnections = rc_maxIdleConnections,
                  idleConnectionTimeout = rc_idleConnectionTimeout,
                  tlsHandshakeTimeout = rc_tlsHandshakeTimeout,
                  expectContinueTimeout = rc_expectContinueTimeout,
                  proxyURL = string_value (getConfigOptionString c configMap ''proxyurl''),
                  retryCount =
                    (case getConfigOptionInt c configMap ''retrycount'' of
                       Inr i \<Rightarrow> i
                     | Inl _ \<Rightarrow> 1),
                  backoffPolicy =
                    (case getConfigOptionMap c configMap ''backoffpolicy'' of
                       Inr backoffPolicyMap \<Rightarrow> NewBackoffPolicy backoffPolicyMap
                     | Inl _ \<Rightarrow> None),
                  hystrixConfig =
                    (case getConfigOptionMap c configMap ''hystrixconfig'' of
                       Inr hm \<Rightarrow> Some (NewHystrixConfig c hm)
                     | Inl _ \<Rightarrow> None),
                  transport =
                    Some (HTTPTransport
                      \<lparr> Proxy = Some ProxyFromEnvironment,
                        DialerTimeout = rc_connectTimeout,
                        DialerKeepAlive = rc_keepAlive,
                        ForceAttemptHTTP2 = True,
                        MaxIdleConns = rc_maxIdleConnections,
                        IdleConnTimeout = rc_idleConnectionTimeout,
                        TLSHandshakeTimeout = rc_tlsHandshakeTimeout,
                        ExpectContinueTimeout = rc_expectContinueTimeout,
                        MaxIdleConnsPerHost = GOMAXPROCS + 1,
                        TLSClientConfig = tlsConfig \<rparr>),
                  headers = rc_headers,
                  checkRedirect = None \<rparr>, h')))"

section \<open>client.go: building the engines\<close>

text \<open>
  \<open>getRetrier\<close>: a constant backoff wins over an exponential one; with neither, or
  with no backoff policy at all, the retrier is heimdall's no-retrier.
\<close>

definition getRetrier :: "RequestConfig \<Rightarrow> retriable" where
  "getRetrier requestConfig =
     (case backoffPolicy requestConfig of
        None \<Rightarrow> NewNoRetrier
      | Some p \<Rightarrow>
          (case constantBackoff p of
             Some cb \<Rightarrow> NewRetrier (NewConstantBackoff (interval cb) (maximumJitterInterval cb))
           | None \<Rightarrow>
               (case exponentialBackoff p of
                  Some eb \<Rightarrow>
                    NewRetrier (NewExponentialBackoff (initialTimeout eb) (maxTimeout eb)
                      (exponentFactor eb) (expMaximumJitterInterval eb))
                | None \<Rightarrow> NewNoRetrier)))"

text \<open>
  The \<open>*http.Client\<close> of \<open>getClient\<close>. The cookie jar is always the default one.
  \<open>setProxy\<close> writes the proxy into the transport when a proxy URL is set, the
  transport is a \<open>*http.Transport\<close> and \<open>url.Parse\<close> (a parameter: it belongs to Go's
  library) accepts the URL; otherwise the client is returned as it is (what is logged
  in that case is left out).
\<close>

record http_Client =
  Timeout :: duration
  Transport :: "round_tripper option"
  CheckRedirect :: "nat option"

definition setProxy :: "(string \<Rightarrow> error + string) \<Rightarrow> RequestConfig \<Rightarrow> http_Client \<Rightarrow> http_Client" where
  "setProxy url_Parse requestConfig client =
     (if proxyURL requestConfig \<noteq> [] then
        (case Transport client of
           Some (HTTPTransport t) \<Rightarrow>
             (case url_Parse (proxyURL requestConfig) of
                Inl _ \<Rightarrow> client
              | Inr pURL \<Rightarrow> client\<lparr>Transport := Some (HTTPTransport (t\<lparr>Proxy := Some (ProxyURL pURL)\<rparr>))\<rparr>)
         | _ \<Rightarrow> client)
      else client)"

definition getClient :: "(string \<Rightarrow> error + string) \<Rightarrow> RequestConfig \<Rightarrow> http_Client" where
  "getClient url_Parse requestConfig =
     setProxy url_Parse requestConfig
       \<lparr> Timeout = timeout requestConfig,
         Transport = transport requestConfig,
         CheckRedirect = checkRedirect requestConfig \<rparr>"

text \<open>
  The two engines of heimdall, each described by the options it is built with:
  \<open>httpclient.NewClient\<close> and \<open>hystrix.NewClient\<close>.
\<close>

record heimdall_options =
  WithHTTPClient :: http_Client
  WithHTTPTimeout :: duration
  WithRetryCount :: go_int
  WithRetrier :: retriable

record hystrix_options = heimdall_options +
  WithCommandName :: string
  WithHystrixTimeout :: duration
  WithMaxConcurrentRequests :: go_int
  WithErrorPercentThreshold :: go_int
  WithSleepWindow :: go_int
  WithRequestVolumeThreshold :: go_int
  WithFallbackFunc :: "nat option"

datatype heimdall_Client =
  httpclient_NewClient heimdall_options
| hystrix_NewClient hystrix_options

definition buildHTTPClient :: "(string \<Rightarrow> error + string) \<Rightarrow> RequestConfig \<Rightarrow> heimdall_Client" where
  "buildHTTPClient url_Parse requestConfig =
     (case hystrixConfig requestConfig of
        None \<Rightarrow>
          httpclient_NewClient
            \<lparr> WithHTTPClient = getClient url_Parse requestConfig,
              WithHTTPTimeout = timeout requestConfig,
              WithRetryCount = retryCount requestConfig,
              WithRetrier = getRetrier requestConfig \<rparr>
      | Some hc \<Rightarrow>
          hystrix_NewClient
            \<lparr> WithHTTPClient = getClient url_Parse requestConfig,
              WithHTTPTimeout = timeout requestConfig,
              WithRetryCount = retryCount requestConfig,
              WithRetrier = getRetrier requestConfig,
              WithCommandName = name requestConfig,
              WithHystrixTimeout = hystrixTimeout hc,
              WithMaxConcurrentRequests = maxConcurrentRequests hc,
              WithErrorPercentThreshold = errorPercentThreshold hc,
              WithSleepWindow = sleepWindowInMillis hc,
              WithRequestVolumeThreshold = requestVolumeThreshold hc,
              WithFallbackFunc = fallback hc \<rparr>)"

text \<open>
  The registry. A lookup of a name that is not registered gives the zero
  \<open>ClientRequestMapping\<close>: a nil engine and a nil configuration.
\<close>

record ClientRequestMapping =
  heimdallClient :: "heimdall_Client option"
  requestConfig :: "RequestConfig option"

datatype Logger = Logger nat
datatype Metrics = Metrics nat

record Client =
  httpClients :: "string \<rightharpoonup> ClientRequestMapping"
  c_ol :: bool
  c_l :: "Logger option"
  c_om :: bool
  c_m :: "Metrics option"

text \<open>The loop of \<open>ConfigureHTTPClient\<close> over its arguments, nil ones skipped.\<close>

fun registerAll ::
  "(string \<Rightarrow> error + string) \<Rightarrow> RequestConfig option list \<Rightarrow>
   (string \<rightharpoonup> ClientRequestMapping) \<Rightarrow> (string \<rightharpoonup> ClientRequestMapping)" where
  "registerAll url_Parse [] clients = clients"
| "registerAll url_Parse (None # rest) clients = registerAll url_Parse rest clients"
| "registerAll url_Parse (Some rc # rest) clients =
     registerAll url_Parse rest
       (clients(name rc \<mapsto>
          \<lparr> heimdallClient = Some (buildHTTPClient url_Parse rc), requestConfig = Some rc \<rparr>))"

definition ConfigureHTTPClient :: "(string \<Rightarrow> error + string) \<Rightarrow> RequestConfig option list \<Rightarrow> Client" where
  "ConfigureHTTPClient url_Parse requestConfigs =
     \<lparr> httpClients = registerAll url_Parse requestConfigs Map.empty,
       c_ol = False, c_l = None, c_om = False, c_m = None \<rparr>"

text \<open>
  \<open>WithLogger\<close> and \<open>WithMetrics\<close>: \<open>sync.Once.Do\<close> runs its argument on the first
  call only, and is not reached with a nil observer.
\<close>

definition WithLogger :: "Logger option \<Rightarrow> Client \<Rightarrow> Client" where
  "WithLogger lg c =
     (if lg \<noteq> None then (if c_ol c then c else c\<lparr>c_ol := True, c_l := lg\<rparr>) else c)"

definition WithMetrics :: "Metrics option \<Rightarrow> Client \<Rightarrow> Client" where
  "WithMetrics mt c =
     (if mt \<noteq> None then (if c_om c then c else c\<lparr>c_om := True, c_m := mt\<rparr>) else c)"

section \<open>The call request\<close>

text \<open>
  A \<open>context.Context\<close> as far as the dispatcher reads it: the value stored under a string
  key, which is a string or a value of some other type. A nil context is \<open>None\<close>.
\<close>

datatype ctx_value = StringValue string | OtherValue nat

type_synonym go_context = "string \<Rightarrow> ctx_value option"

text \<open>
  The fields of \<open>Request\<close> that \<open>Client.Request\<close> reads and writes. The two maps are
  references into the heap; the body is an \<open>io.Reader\<close>, kept by its identity.
\<close>

record Request =
  req_name :: string
  req_method :: string
  req_url :: string
  queryParams :: "addr option"
  headerParams :: "addr option"
  body :: "nat option"
  ctx :: "go_context option"

text \<open>
  Modelled from the spec: \<open>Request.SetHeaderParam\<close>, defined in a file of the repository
  that is not at hand. The correlation header is "always present" after it is injected,
  also for a call without headers against a profile without headers, and the header map
  of a call request is "not defensively copied": the method writes the entry into the
  request's header map in place, and makes a new map first when the request has none.
\<close>

definition SetHeaderParam :: "string \<Rightarrow> string \<Rightarrow> Request \<Rightarrow> heap \<Rightarrow> Request \<times> heap" where
  "SetHeaderParam param val r h =
     (case headerParams r of
        None \<Rightarrow> (let (a, h') = alloc [] h in (r\<lparr>headerParams := Some a\<rparr>, store a param val h'))
      | Some a \<Rightarrow> (r, store a param val h))"

section \<open>The wire request\<close>

text \<open>
  \<open>http.Header.Add\<close> appends the value to the values of the canonical form of the key
  (\<open>textproto.CanonicalMIMEHeaderKey\<close>): a key made of header-token bytes only has its
  first letter and every letter after a hyphen in upper case and all others in lower
  case; any other key is left as it is. The values of a header are added while ranging
  over a Go map, so their order is not determined by the code: a header holds the
  multiset of its values.
\<close>

definition lowers :: string where
  "lowers = ''abcdefghijklmnopqrstuvwxyz''"

definition uppers :: string where
  "uppers = ''ABCDEFGHIJKLMNOPQRSTUVWXYZ''"

definition validHeaderFieldByte :: "char \<Rightarrow> bool" where
  "validHeaderFieldByte c =
     (c \<in> set lowers \<or> c \<in> set uppers \<or> c \<in> set ''0123456789'' \<or>
      c \<in> set [CHR ''!'', CHR ''#'', CHR ''$'', CHR ''%'', CHR ''&'', CHR 0x27, CHR ''*'',
                CHR ''+'', CHR ''-'', CHR ''.'', CHR ''^'', CHR ''_'', CHR 0x60, CHR ''|'', CHR ''~''])"

definition toUpper :: "char \<Rightarrow> char" where
  "toUpper c = (case map_of (zip lowers uppers) c of Some u \<Rightarrow> u | None \<Rightarrow> c)"

definition toLower :: "char \<Rightarrow> char" where
  "toLower c = (case map_of (zip uppers lowers) c of Some l \<Rightarrow> l | None \<Rightarrow> c)"

fun canonicalLoop :: "bool \<Rightarrow> string \<Rightarrow> string" where
  "canonicalLoop upper [] = []"
| "canonicalLoop upper (c # cs) =
     (let c' = (if upper then toUpper c else toLower c)
      in c' # canonicalLoop (c' = CHR ''-'') cs)"

definition CanonicalMIMEHeaderKey :: "string \<Rightarrow> string" where
  "CanonicalMIMEHeaderKey s = (if list_all validHeaderFieldByte s then canonicalLoop True s else s)"

type_synonym http_Header = "string \<Rightarrow> string multiset"

definition Header_Add :: "string \<Rightarrow> string \<Rightarrow> http_Header \<Rightarrow> http_Header" where
  "Header_Add key val hdr =
     hdr(CanonicalMIMEHeaderKey key := add_mset val (hdr (CanonicalMIMEHeaderKey key)))"

text \<open>
  The \<open>*http.Request\<close> that \<open>getRequest\<close> builds. \<open>QueryAdded\<close> holds the parameters that
  are added to the query of the URL, as a multiset (the URL is not re-encoded here); a
  \<open>Ctx\<close> of \<open>None\<close> is the background context that \<open>http.NewRequest\<close> starts with.
\<close>

record http_Request =
  Method :: string
  URL :: string
  Body :: "nat option"
  Ctx :: "go_context option"
  QueryAdded :: "(string \<times> string) multiset option"
  Header :: http_Header

text \<open>
  \<open>http.NewRequest\<close> belongs to Go's library. Whether it rejects a method and a URL is a
  parameter; when it accepts them, the new request has no header yet, and an empty
  method stands for GET.
\<close>

definition http_NewRequest ::
  "(string \<Rightarrow> string \<Rightarrow> error option) \<Rightarrow> string \<Rightarrow> string \<Rightarrow> nat option \<Rightarrow> error + http_Request" where
  "http_NewRequest reject m u b =
     (case reject m u of
        Some e \<Rightarrow> Inl e
      | None \<Rightarrow>
          Inr \<lparr> Method = (if m = [] then ''GET'' else m), URL = u, Body = b, Ctx = None,
                QueryAdded = None, Header = (\<lambda>_. {#}) \<rparr>)"

text \<open>The loop \<open>for k, v := range headerParams { request.Header.Add(k, v) }\<close>.\<close>

fun addHeaders :: "strmap \<Rightarrow> http_Header \<Rightarrow> http_Header" where
  "addHeaders [] hdr = hdr"
| "addHeaders ((k, v) # rest) hdr = addHeaders rest (Header_Add k v hdr)"

definition getRequest ::
  "(string \<Rightarrow> string \<Rightarrow> error option) \<Rightarrow> heap \<Rightarrow> go_context option \<Rightarrow> string \<Rightarrow> string \<Rightarrow>
   addr option \<Rightarrow> addr option \<Rightarrow> nat option \<Rightarrow> error + http_Request" where
  "getRequest reject h cx m u qp hp b =
     (case http_NewRequest reject m u b of
        Inl err \<Rightarrow> Inl err
      | Inr request \<Rightarrow>
          (let request1 = (if cx \<noteq> None then request\<lparr>Ctx := cx\<rparr> else request);
               request2 = (if qp \<noteq> None
                           then request1\<lparr>QueryAdded := Some (mset (entries (deref h qp)))\<rparr>
                           else request1)
           in Inr (request2\<lparr>Header := addHeaders (entries (deref h hp)) (Header request2)\<rparr>)))"

definition getRequestID :: "string \<Rightarrow> go_context option \<Rightarrow> string" where
  "getRequestID uuid_NewString cx =
     (case cx of
        None \<Rightarrow> uuid_NewString
      | Some c \<Rightarrow>
          (case c idParam of
             Some (StringValue s) \<Rightarrow> s
           | _ \<Rightarrow> uuid_NewString))"

section \<open>client.go: dispatch\<close>

text \<open>Decimal output of \<open>%d\<close> in \<open>fmt.Sprintf\<close>.\<close>

function natToDec :: "nat \<Rightarrow> string" where
  "natToDec n =
     (if n < 10 then [''0123456789'' ! n]
      else natToDec (n div 10) @ [''0123456789'' ! (n mod 10)])"
  by pat_completeness auto
termination
  by (relation "measure id") auto

declare natToDec.simps [simp del]

definition itoa :: "int \<Rightarrow> string" where
  "itoa i = (if i < 0 then CHR ''-'' # natToDec (nat (- i)) else natToDec (nat i))"

text \<open>
  What lies outside the dispatcher, for one dispatch: the verdict of \<open>http.NewRequest\<close>
  on a method and a URL, what the engine's \<open>Do\<close> returns for a wire request, the
  identifier that \<open>uuid.NewString\<close> returns, and the readings of the clock (\<open>time.Now\<close>,
  in nanoseconds) in the order in which they are taken.
\<close>

record http_Response =
  StatusCode :: go_int
  response_id :: nat

record world =
  rejectRequest :: "string \<Rightarrow> string \<Rightarrow> error option"
  Do :: "heimdall_Client \<Rightarrow> http_Request \<Rightarrow> http_Response option \<times> error option"
  uuid_NewString :: string
  time_Now :: "nat \<Rightarrow> int"

record Metric =
  Status :: go_int
  LatencyInMillis :: "64 word"

text \<open>The calls that leave the dispatcher, in order.\<close>

datatype event =
  DoCalled heimdall_Client http_Request
| LoggerCalled Logger "go_context option" string
| MetricsCalled Metrics "go_context option" string Metric

text \<open>
  \<open>time.Now().Sub(start).Milliseconds()\<close>: the difference saturates at the bounds of
  \<open>int64\<close>, and the division by a million truncates.
\<close>

definition elapsedMillis :: "int \<Rightarrow> int \<Rightarrow> 64 word" where
  "elapsedMillis now start =
     word_of_int ((max (- (2 ^ 63)) (min (2 ^ 63 - 1) (now - start))) sdiv 1000000)"

definition logLatencyAndStatusCode ::
  "Client \<Rightarrow> Request \<Rightarrow> int \<Rightarrow> int \<Rightarrow> go_int \<Rightarrow> event list" where
  "logLatencyAndStatusCode c request now start statusCode =
     (case c_l c of
        None \<Rightarrow> []
      | Some lg \<Rightarrow>
          [LoggerCalled lg (ctx request)
             (''Fulfilled http request '' @ req_name request @ '' with status '' @
              itoa (sint statusCode) @ '' in duration '' @
              itoa (sint (elapsedMillis now start)) @ '' ms'')])"

definition metricLatencyAndStatusCode ::
  "Client \<Rightarrow> Request \<Rightarrow> int \<Rightarrow> int \<Rightarrow> go_int \<Rightarrow> event list" where
  "metricLatencyAndStatusCode c request now start statusCode =
     (case c_m c of
        None \<Rightarrow> []
      | Some mt \<Rightarrow>
          [MetricsCalled mt (ctx request) (req_name request)
             \<lparr> Status = statusCode, LatencyInMillis = elapsedMillis now start \<rparr>])"

text \<open>
  How a dispatch ends: it returns a response and an error, either of which may be nil, or
  it panics. With the outcome come the call request and the heap as the dispatch leaves
  them, and the calls it made.
\<close>

datatype outcome = Return "http_Response option" "error option" | Panic string

record result =
  outcome :: outcome
  request_after :: Request
  heap_after :: heap
  events :: "event list"

definition nilDereference :: string where
  "nilDereference = ''runtime error: invalid memory address or nil pointer dereference''"

definition zeroClientRequestMapping :: ClientRequestMapping where
  "zeroClientRequestMapping = \<lparr> heimdallClient = None, requestConfig = None \<rparr>"

definition lookupClient :: "Client \<Rightarrow> string \<Rightarrow> ClientRequestMapping" where
  "lookupClient c n = (case httpClients c n of Some m \<Rightarrow> m | None \<Rightarrow> zeroClientRequestMapping)"

text \<open>
  \<open>Client.Request\<close>, in the order of its statements. The name is looked up; for an
  unregistered name the mapping is the zero one, and reading a field through its nil
  \<open>requestConfig\<close>, or calling \<open>Do\<close> on its nil engine, panics.

  First the method, the URL and the header map of the call request are filled from the
  profile where the call left them empty. Each step is \<open>None\<close> when it panics.
\<close>

definition defaultMethod :: "ClientRequestMapping \<Rightarrow> Request \<Rightarrow> Request option" where
  "defaultMethod client request =
     (if req_method request = []
      then (case requestConfig client of
              None \<Rightarrow> None
            | Some rc \<Rightarrow> Some (request\<lparr>req_method := method rc\<rparr>))
      else Some request)"

definition defaultURL :: "ClientRequestMapping \<Rightarrow> Request \<Rightarrow> Request option" where
  "defaultURL client request =
     (if req_url request = []
      then (case requestConfig client of
              None \<Rightarrow> None
            | Some rc \<Rightarrow> Some (request\<lparr>req_url := url rc\<rparr>))
      else Some request)"

definition defaultHeaders :: "ClientRequestMapping \<Rightarrow> Request \<Rightarrow> Request option" where
  "defaultHeaders client request =
     (if headerParams request = None
      then (case requestConfig client of
              None \<Rightarrow> None
            | Some rc \<Rightarrow> Some (request\<lparr>headerParams := headers rc\<rparr>))
      else Some request)"

text \<open>
  After \<open>Do\<close> has returned: what the dispatch returns, and which observers it calls. The
  logger and the metrics sink each read the clock when they are set.
\<close>

definition afterDo ::
  "world \<Rightarrow> Client \<Rightarrow> Request \<Rightarrow> int \<Rightarrow> http_Response option \<times> error option \<Rightarrow>
   outcome \<times> event list" where
  "afterDo w c request start done =
     (case done of
        (None, None) \<Rightarrow> (Return None (Some (Error ''unable to fetch response'')), [])
      | (Some response, None) \<Rightarrow>
          (let logged = logLatencyAndStatusCode c request (time_Now w 1) start
                          (StatusCode response);
               measured = metricLatencyAndStatusCode c request
                            (time_Now w (1 + length logged)) start (StatusCode response)
           in (Return (Some response) None, logged @ measured))
      | (response, Some err) \<Rightarrow> (Return response (Some err), []))"

text \<open>
  The correlation header is set, the clock is read, the wire request is built and handed
  to the engine.
\<close>

definition performRequest ::
  "world \<Rightarrow> Client \<Rightarrow> ClientRequestMapping \<Rightarrow> Request \<Rightarrow> heap \<Rightarrow> result" where
  "performRequest w c client request3 h =
     (let (request4, h4) =
            SetHeaderParam requestIDHeader (getRequestID (uuid_NewString w) (ctx request3))
              request3 h;
          start = time_Now w 0
      in
      case getRequest (rejectRequest w) h4 (ctx request4) (req_method request4) (req_url request4)
             (queryParams request4) (headerParams request4) (body request4) of
        Inl err \<Rightarrow>
          \<lparr> outcome = Return None (Some err), request_after = request4, heap_after = h4,
            events = [] \<rparr>
      | Inr req \<Rightarrow>
          (case heimdallClient client of
             None \<Rightarrow>
               \<lparr> outcome = Panic nilDereference, request_after = request4, heap_after = h4,
                 events = [] \<rparr>
           | Some engine \<Rightarrow>
               (let (out, observed) = afterDo w c request4 start (Do w engine req)
                in \<lparr> outcome = out, request_after = request4, heap_after = h4,
                     events = DoCalled engine req # observed \<rparr>)))"

definition panicked :: "Request \<Rightarrow> heap \<Rightarrow> result" where
  "panicked request h =
     \<lparr> outcome = Panic nilDereference, request_after = request, heap_after = h, events = [] \<rparr>"

definition Request :: "world \<Rightarrow> Client \<Rightarrow> Request \<Rightarrow> heap \<Rightarrow> result" where
  "Request w c request h =
     (let client = lookupClient c (req_name request) in
      case defaultMethod client request of
        None \<Rightarrow> panicked request h
      | Some request1 \<Rightarrow>
          (case defaultURL client request1 of
             None \<Rightarrow> panicked request1 h
           | Some request2 \<Rightarrow>
               (case defaultHeaders client request2 of
                  None \<Rightarrow> panicked request2 h
                | Some request3 \<Rightarrow> performRequest w c client request3 h)))"

section \<open>Notions used in the statements, and sample inputs\<close>

text \<open>The options common to both kinds of engine.\<close>

definition engineOptions :: "heimdall_Client \<Rightarrow> heimdall_options" where
  "engineOptions e =
     (case e of
        httpclient_NewClient opts \<Rightarrow> opts
      | hystrix_NewClient opts \<Rightarrow> heimdall_options.truncate opts)"

text \<open>The backoff settings of the repository's test configuration.\<close>

definition demoConstant :: ConstantBackoff where
  "demoConstant = \<lparr> interval = 2 * Millisecond, maximumJitterInterval = 5 * Millisecond \<rparr>"

definition demoExponential :: ExponentialBackoff where
  "demoExponential =
     \<lparr> initialTimeout = 2 * Millisecond, maxTimeout = 10 * Millisecond,
       exponentFactor = 0x4000000000000000, expMaximumJitterInterval = 2 * Millisecond \<rparr>"

definition demoConfig :: "BackoffPolicy option \<Rightarrow> RequestConfig" where
  "demoConfig bp = (zeroRequestConfig ''test'')\<lparr>backoffPolicy := bp\<rparr>"

text \<open>The kind of an engine, and the command name of a hystrix engine.\<close>

definition isHystrixClient :: "heimdall_Client \<Rightarrow> bool" where
  "isHystrixClient e = (case e of httpclient_NewClient _ \<Rightarrow> False | hystrix_NewClient _ \<Rightarrow> True)"

definition commandNameOf :: "heimdall_Client \<Rightarrow> string option" where
  "commandNameOf e =
     (case e of httpclient_NewClient _ \<Rightarrow> None | hystrix_NewClient opts \<Rightarrow> Some (WithCommandName opts))"

text \<open>
  The last non-nil configuration with a given name among the arguments of
  \<open>ConfigureHTTPClient\<close>, and the registry entry that is built for a configuration.
\<close>

fun lastNamed :: "string \<Rightarrow> RequestConfig option list \<Rightarrow> RequestConfig option" where
  "lastNamed n [] = None"
| "lastNamed n (None # rest) = lastNamed n rest"
| "lastNamed n (Some rc # rest) =
     (case lastNamed n rest of
        Some rc' \<Rightarrow> Some rc'
      | None \<Rightarrow> (if name rc = n then Some rc else None))"

definition entryFor :: "(string \<Rightarrow> error + string) \<Rightarrow> RequestConfig \<Rightarrow> ClientRequestMapping" where
  "entryFor up rc = \<lparr> heimdallClient = Some (buildHTTPClient up rc), requestConfig = Some rc \<rparr>"

text \<open>The breaker settings of the repository's test configuration, and two profiles.\<close>

definition demoHystrix :: HystrixConfig where
  "demoHystrix =
     \<lparr> hystrixTimeout = 0, maxConcurrentRequests = 10, errorPercentThreshold = 20,
       sleepWindowInMillis = 10, requestVolumeThreshold = 10, fallback = None \<rparr>"

definition demoBreaker :: RequestConfig where
  "demoBreaker = (zeroRequestConfig ''test'')\<lparr>hystrixConfig := Some demoHystrix\<rparr>"

definition demoPlain :: RequestConfig where
  "demoPlain = zeroRequestConfig ''plain''"

text \<open>
  A sequence of calls of \<open>WithLogger\<close> and \<open>WithMetrics\<close> on one client, and the first
  non-nil observer of each kind in such a sequence.
\<close>

datatype observer_call = CallWithLogger "Logger option" | CallWithMetrics "Metrics option"

fun applyCalls :: "observer_call list \<Rightarrow> Client \<Rightarrow> Client" where
  "applyCalls [] c = c"
| "applyCalls (CallWithLogger lg # rest) c = applyCalls rest (WithLogger lg c)"
| "applyCalls (CallWithMetrics mt # rest) c = applyCalls rest (WithMetrics mt c)"

fun firstLogger :: "observer_call list \<Rightarrow> Logger option" where
  "firstLogger [] = None"
| "firstLogger (CallWithLogger (Some lg) # rest) = Some lg"
| "firstLogger (_ # rest) = firstLogger rest"

fun firstMetrics :: "observer_call list \<Rightarrow> Metrics option" where
  "firstMetrics [] = None"
| "firstMetrics (CallWithMetrics (Some mt) # rest) = Some mt"
| "firstMetrics (_ # rest) = firstMetrics rest"

text \<open>Each \<open>sync.Once\<close> of a client has run exactly when its observer is set.\<close>

definition onceConsistent :: "Client \<Rightarrow> bool" where
  "onceConsistent c = ((c_ol c \<longleftrightarrow> c_l c \<noteq> None) \<and> (c_om c \<longleftrightarrow> c_m c \<noteq> None))"

definition demoCalls :: "observer_call list" where
  "demoCalls =
     [CallWithLogger None, CallWithMetrics None, CallWithLogger (Some (Logger 1)),
      CallWithLogger (Some (Logger 2)), CallWithMetrics (Some (Metrics 7)),
      CallWithLogger None, CallWithMetrics (Some (Metrics 8))]"

text \<open>
  A small universe of configuration values for the sample inputs: the Go integers,
  booleans and nested maps of the repository's test configuration, and what cast makes
  of them (the text of its error messages is shortened). The nested map under the
  key \<open>retrycount\<close> below is a value that cast cannot turn into an integer.
\<close>

datatype literal = LInt go_int | LBool bool | LMap "(string \<times> literal) list"

definition literalCast :: "literal cast" where
  "literalCast =
     \<lparr> ToIntE = (\<lambda>v. case v of
                       LInt i \<Rightarrow> Inr i
                     | LBool b \<Rightarrow> Inr (if b then 1 else 0)
                     | LMap _ \<Rightarrow> Inl (Error ''unable to cast to int'')),
       ToStringE = (\<lambda>v. case v of
                       LInt i \<Rightarrow> Inr (itoa (sint i))
                     | LBool b \<Rightarrow> Inr (if b then ''true'' else ''false'')
                     | LMap _ \<Rightarrow> Inl (Error ''unable to cast to string'')),
       ToStringMapE = (\<lambda>v. case v of
                       LMap m \<Rightarrow> Inr m
                     | _ \<Rightarrow> Inl (Error ''unable to cast to map[string]interface{}'')) \<rparr>"

definition demoConfigMap :: "literal config_map" where
  "demoConfigMap = [(''timeoutinmillis'', LInt 5000), (''retrycount'', LMap [])]"

definition demoHystrixMap :: "literal config_map" where
  "demoHystrixMap = [(''maxconcurrentrequests'', LInt 10)]"

text \<open>
  The call request after the defaults of a profile have been filled in; the correlation
  id of a dispatch; the request and the heap after the correlation header is set; and the
  wire request that \<open>getRequest\<close> then builds.
\<close>

definition withDefaults :: "RequestConfig \<Rightarrow> Request \<Rightarrow> Request" where
  "withDefaults rc r =
     r\<lparr> req_method := (if req_method r = [] then method rc else req_method r),
        req_url := (if req_url r = [] then url rc else req_url r),
        headerParams := (if headerParams r = None then headers rc else headerParams r) \<rparr>"

definition requestID :: "world \<Rightarrow> Request \<Rightarrow> string" where
  "requestID w r = getRequestID (uuid_NewString w) (ctx r)"

definition tagged :: "world \<Rightarrow> Request \<Rightarrow> heap \<Rightarrow> Request \<times> heap" where
  "tagged w r3 h = SetHeaderParam requestIDHeader (requestID w r3) r3 h"

definition built :: "world \<Rightarrow> Request \<Rightarrow> heap \<Rightarrow> error + http_Request" where
  "built w r3 h =
     (let (r4, h4) = tagged w r3 h
      in getRequest (rejectRequest w) h4 (ctx r4) (req_method r4) (req_url r4)
           (queryParams r4) (headerParams r4) (body r4))"

text \<open>A map reference is nil or an address in the heap.\<close>

definition validRef :: "heap \<Rightarrow> addr option \<Rightarrow> bool" where
  "validRef h r = (case r of None \<Rightarrow> True | Some a \<Rightarrow> a < length h)"

text \<open>
  The header map that a dispatch hands to \<open>getRequest\<close>, and whether a map has a key
  other than the correlation header's that \<open>http.Header\<close> takes for the same header.
\<close>

definition sentHeaders :: "result \<Rightarrow> strmap" where
  "sentHeaders res = deref (heap_after res) (headerParams (request_after res))"

definition collides :: "strmap \<Rightarrow> bool" where
  "collides m =
     list_ex (\<lambda>e. fst e \<noteq> requestIDHeader \<and>
                 CanonicalMIMEHeaderKey (fst e) = CanonicalMIMEHeaderKey requestIDHeader) m"

text \<open>
  A profile as the fluent setters build it, registered alone; a heap with its static
  header map and two maps a caller may pass; the call request of \<open>NewRequest("test")\<close>;
  and a world in which every wire request is accepted and the engine gives a fixed answer.
\<close>

definition demoProfile :: RequestConfig where
  "demoProfile =
     (zeroRequestConfig ''test'')
       \<lparr> method := ''GET'', url := ''http://example.test'', timeout := 5000 * Millisecond,
         retryCount := 3, headers := Some 0 \<rparr>"

definition demoHeap :: heap where
  "demoHeap = [[(''source'', ''internal'')], [(''x'', ''y'')], [(''x-requestid'', ''abc'')]]"

definition demoClient :: Client where
  "demoClient = ConfigureHTTPClient (\<lambda>u. Inr u) [Some demoProfile]"

definition demoRequest :: Request where
  "demoRequest =
     \<lparr> req_name = ''test'', req_method = [], req_url = [], queryParams = None,
       headerParams = None, body = None, ctx = None \<rparr>"

definition demoWorld :: "http_Response option \<times> error option \<Rightarrow> world" where
  "demoWorld answer =
     \<lparr> rejectRequest = (\<lambda>m u. None), Do = (\<lambda>engine req. answer),
       uuid_NewString = ''uuid-1'', time_Now = (\<lambda>i. 1000000 * int i) \<rparr>"

text \<open>
  The wire request of a call that leaves everything to that profile, with its header
  given value by value, and the header with the profile's static header and a
  correlation id.
\<close>

definition demoWire :: "http_Header \<Rightarrow> http_Request" where
  "demoWire hdr =
     \<lparr> Method = ''GET'', URL = ''http://example.test'', Body = None, Ctx = None,
       QueryAdded = None, Header = hdr \<rparr>"

definition demoHeader :: "string \<Rightarrow> http_Header" where
  "demoHeader i = (\<lambda>_. {#})(''Source'' := {#''internal''#}, ''X-Requestid'' := {#i#})"

text \<open>An answer of the engine with status 200, and a call that overrides the profile.\<close>

definition okAnswer :: "http_Response option \<times> error option" where
  "okAnswer = (Some \<lparr> StatusCode = 200, response_id = 0 \<rparr>, None)"

definition overrideRequest :: Request where
  "overrideRequest =
     demoRequest\<lparr> req_method := ''POST'', req_url := ''http://other.test'',
                   headerParams := Some 1, queryParams := Some 2 \<rparr>"

text \<open>
  A later dispatch, for which \<open>uuid.NewString\<close> returns another identifier, and a
  configuration map with static headers that are not strings.
\<close>

definition laterWorld :: "http_Response option \<times> error option \<Rightarrow> world" where
  "laterWorld answer = (demoWorld answer)\<lparr>uuid_NewString := ''uuid-2''\<rparr>"

definition demoHeaderConfig :: "literal config_map" where
  "demoHeaderConfig = [(''headers'', LMap [(''limit'', LInt 10), (''flag'', LBool True)])]"

text \<open>
  The wire requests handed to the engine, and the values they carry under the
  correlation header.
\<close>

fun wireRequests :: "event list \<Rightarrow> http_Request list" where
  "wireRequests [] = []"
| "wireRequests (DoCalled engine req # rest) = req # wireRequests rest"
| "wireRequests (_ # rest) = wireRequests rest"

definition correlationValues :: "event list \<Rightarrow> string multiset" where
  "correlationValues evs =
     sum_list (map (\<lambda>req. Header req (CanonicalMIMEHeaderKey requestIDHeader)) (wireRequests evs))"

text \<open>
  The values that a header map puts on the wire under a canonical header name: those of
  all its keys that stand for that header.
\<close>

definition wireValues :: "strmap \<Rightarrow> string \<Rightarrow> string multiset" where
  "wireValues m K =
     image_mset snd (filter_mset (\<lambda>e. CanonicalMIMEHeaderKey (fst e) = K) (mset (entries m)))"

text \<open>Whether the context of a call carries a correlation id, that is a string under \<open>id\<close>.\<close>

definition suppliesID :: "Request \<Rightarrow> bool" where
  "suppliesID r =
     (case ctx r of
        None \<Rightarrow> False
      | Some cx \<Rightarrow> (case cx idParam of Some (StringValue s) \<Rightarrow> True | _ \<Rightarrow> False))"

text \<open>
  The wire request of the call that overrides the profile, dispatched later: its own
  method, URL, query parameters and header, the correlation id, and nothing of the
  profile's static headers.
\<close>

definition overrideWire :: http_Request where
  "overrideWire =
     \<lparr> Method = ''POST'', URL = ''http://other.test'', Body = None, Ctx = None,
       QueryAdded = Some {#(''x-requestid'', ''abc'')#},
       Header = (\<lambda>_. {#})(''X'' := {#''y''#}, ''X-Requestid'' := {#''uuid-2''#}) \<rparr>"

text \<open>
  A call whose own header map has the correlation header in lower case, and a call whose
  context carries a correlation id.
\<close>

definition taggedByCaller :: Request where
  "taggedByCaller = demoRequest\<lparr>headerParams := Some 2\<rparr>"

definition tracedRequest :: Request where
  "tracedRequest =
     demoRequest\<lparr>ctx := Some (\<lambda>k. if k = ''id'' then Some (StringValue ''trace-7'') else None)\<rparr>"

text \<open>
  A client with a profile that has no static headers, and a call against it.
\<close>

definition plainClient :: Client where
  "plainClient = ConfigureHTTPClient (\<lambda>u. Inr u) [Some demoPlain]"

definition plainRequest :: Request where
  "plainRequest = demoRequest\<lparr>req_name := ''plain''\<rparr>"

text \<open>The heap after the first dispatch of the call that leaves everything to the profile.\<close>

definition demoHeapAfter :: heap where
  "demoHeapAfter =
     [[(''source'', ''internal''), (''X-requestId'', ''uuid-1'')], [(''x'', ''y'')],
      [(''x-requestid'', ''abc'')]]"

section \<open>Retrier selection\<close>

lemma engine_retrier: "WithRetrier (engineOptions (buildHTTPClient up rc)) = getRetrier rc"
  by (simp add: engineOptions_def buildHTTPClient_def heimdall_options.truncate_def
      split: option.splits)

text \<open>
  C2. The retrier of the engine built for a request configuration is the one that
  \<open>getRetrier\<close> selects, whichever kind of engine it is. With a constant backoff
  configured it is a retrier with constant backoff and jitter, whether or not an
  exponential one is configured too; with only an exponential backoff it is a retrier
  with exponential backoff and jitter; with neither, or with no backoff policy, it is
  heimdall's no-retrier.
\<close>

theorem getRetrier_precedence:
  "WithRetrier (engineOptions (buildHTTPClient up rc)) = getRetrier rc \<and>
   (\<forall>p cb. backoffPolicy rc = Some p \<and> constantBackoff p = Some cb \<longrightarrow>
      getRetrier rc = NewRetrier (NewConstantBackoff (interval cb) (maximumJitterInterval cb))) \<and>
   (\<forall>p eb. backoffPolicy rc = Some p \<and> constantBackoff p = None \<and> exponentialBackoff p = Some eb \<longrightarrow>
      getRetrier rc =
        NewRetrier (NewExponentialBackoff (initialTimeout eb) (maxTimeout eb) (exponentFactor eb)
          (expMaximumJitterInterval eb))) \<and>
   (backoffPolicy rc = None \<or>
      (\<exists>p. backoffPolicy rc = Some p \<and> constantBackoff p = None \<and> exponentialBackoff p = None) \<longrightarrow>
      getRetrier rc = NewNoRetrier)"
  by (auto simp: engine_retrier getRetrier_def)

theorem getRetrier_precedence_witness:
  "getRetrier (demoConfig (Some \<lparr> constantBackoff = Some demoConstant,
                                   exponentialBackoff = Some demoExponential \<rparr>))
     = NewRetrier (NewConstantBackoff 2000000 5000000) \<and>
   getRetrier (demoConfig (Some \<lparr> constantBackoff = None,
                                   exponentialBackoff = Some demoExponential \<rparr>))
     = NewRetrier (NewExponentialBackoff 2000000 10000000 0x4000000000000000 2000000) \<and>
   getRetrier (demoConfig (Some \<lparr> constantBackoff = None, exponentialBackoff = None \<rparr>))
     = NewNoRetrier \<and>
   getRetrier (demoConfig None) = NewNoRetrier"
  using
    getRetrier_precedence [of "\<lambda>u. Inr u"
      "demoConfig (Some \<lparr> constantBackoff = Some demoConstant,
                           exponentialBackoff = Some demoExponential \<rparr>)"]
    getRetrier_precedence [of "\<lambda>u. Inr u"
      "demoConfig (Some \<lparr> constantBackoff = None, exponentialBackoff = Some demoExponential \<rparr>)"]
    getRetrier_precedence [of "\<lambda>u. Inr u"
      "demoConfig (Some \<lparr> constantBackoff = None, exponentialBackoff = None \<rparr>)"]
    getRetrier_precedence [of "\<lambda>u. Inr u" "demoConfig None"]
  by (simp add: demoConfig_def demoConstant_def demoExponential_def Millisecond_def
      zeroRequestConfig_def)

section \<open>The registry and the kind of engine\<close>

lemma registerAll_lookup:
  "registerAll up rcs clients n =
     (case lastNamed n rcs of Some rc \<Rightarrow> Some (entryFor up rc) | None \<Rightarrow> clients n)"
proof (induction rcs arbitrary: clients)
  case Nil
  show ?case by simp
next
  case (Cons x rcs)
  show ?case
  proof (cases x)
    case None
    with Cons show ?thesis by simp
  next
    case (Some rc)
    with Cons show ?thesis
      by (simp add: entryFor_def split: option.splits)
  qed
qed

lemma lastNamed_Some: "lastNamed n rcs = Some rc \<Longrightarrow> Some rc \<in> set rcs \<and> name rc = n"
proof (induction rcs)
  case Nil
  then show ?case by simp
next
  case (Cons x rcs)
  then show ?case
    by (cases x) (auto split: option.splits if_splits)
qed

lemma lastNamed_registered: "Some rc \<in> set rcs \<Longrightarrow> lastNamed (name rc) rcs \<noteq> None"
proof (induction rcs)
  case Nil
  then show ?case by simp
next
  case (Cons x rcs)
  then show ?case
    by (cases x) (auto split: option.splits)
qed

lemma buildHTTPClient_kind:
  "isHystrixClient (buildHTTPClient up rc) = (hystrixConfig rc \<noteq> None)"
  by (simp add: isHystrixClient_def buildHTTPClient_def split: option.splits)

lemma buildHTTPClient_commandName:
  "commandNameOf (buildHTTPClient up rc) = (if hystrixConfig rc = None then None else Some (name rc))"
  by (simp add: commandNameOf_def buildHTTPClient_def split: option.splits)

text \<open>
  C3. Every non-nil configuration passed to \<open>ConfigureHTTPClient\<close> has an entry under
  its name, built from the last configuration passed with that name (from itself when
  it is the last one): the entry's engine is \<open>buildHTTPClient\<close> of that configuration.
  The engine is a hystrix client exactly when the configuration has a hystrix config,
  whatever the values in it, and its command name is then the name of the profile;
  without a hystrix config it is a plain retrying client.
\<close>

theorem engine_kind_by_presence:
  "(Some rc \<in> set rcs \<longrightarrow>
      (\<exists>rc'. Some rc' \<in> set rcs \<and> name rc' = name rc \<and> lastNamed (name rc) rcs = Some rc' \<and>
         httpClients (ConfigureHTTPClient up rcs) (name rc) = Some (entryFor up rc'))) \<and>
   (lastNamed (name rc) rcs = Some rc \<longrightarrow>
      httpClients (ConfigureHTTPClient up rcs) (name rc) = Some (entryFor up rc)) \<and>
   heimdallClient (entryFor up rc) = Some (buildHTTPClient up rc) \<and>
   isHystrixClient (buildHTTPClient up rc) = (hystrixConfig rc \<noteq> None) \<and>
   (\<forall>hc. isHystrixClient (buildHTTPClient up (rc\<lparr>hystrixConfig := Some hc\<rparr>)) \<and>
      commandNameOf (buildHTTPClient up (rc\<lparr>hystrixConfig := Some hc\<rparr>)) = Some (name rc)) \<and>
   \<not> isHystrixClient (buildHTTPClient up (rc\<lparr>hystrixConfig := None\<rparr>))"
proof -
  have reg: "Some rc \<in> set rcs \<longrightarrow>
      (\<exists>rc'. Some rc' \<in> set rcs \<and> name rc' = name rc \<and> lastNamed (name rc) rcs = Some rc' \<and>
         httpClients (ConfigureHTTPClient up rcs) (name rc) = Some (entryFor up rc'))"
  proof
    assume "Some rc \<in> set rcs"
    then obtain rc' where l: "lastNamed (name rc) rcs = Some rc'"
      using lastNamed_registered by blast
    then have "Some rc' \<in> set rcs \<and> name rc' = name rc"
      by (rule lastNamed_Some)
    moreover have "httpClients (ConfigureHTTPClient up rcs) (name rc) = Some (entryFor up rc')"
      by (simp add: ConfigureHTTPClient_def registerAll_lookup l)
    ultimately show "\<exists>rc'. Some rc' \<in> set rcs \<and> name rc' = name rc \<and>
        lastNamed (name rc) rcs = Some rc' \<and>
        httpClients (ConfigureHTTPClient up rcs) (name rc) = Some (entryFor up rc')"
      using l by blast
  qed
  have last: "lastNamed (name rc) rcs = Some rc \<longrightarrow>
      httpClients (ConfigureHTTPClient up rcs) (name rc) = Some (entryFor up rc)"
    by (simp add: ConfigureHTTPClient_def registerAll_lookup)
  have ent: "heimdallClient (entryFor up rc) = Some (buildHTTPClient up rc)"
    by (simp add: entryFor_def)
  have kinds: "\<forall>hc. isHystrixClient (buildHTTPClient up (rc\<lparr>hystrixConfig := Some hc\<rparr>)) \<and>
      commandNameOf (buildHTTPClient up (rc\<lparr>hystrixConfig := Some hc\<rparr>)) = Some (name rc)"
    by (simp add: buildHTTPClient_kind buildHTTPClient_commandName)
  have plain: "\<not> isHystrixClient (buildHTTPClient up (rc\<lparr>hystrixConfig := None\<rparr>))"
    by (simp add: buildHTTPClient_kind)
  from reg last ent kinds plain show ?thesis
    by (simp only: buildHTTPClient_kind simp_thms)
qed

theorem engine_kind_by_presence_witness:
  "Some demoBreaker \<in> set [Some demoPlain, None, Some demoBreaker] \<and>
   lastNamed (name demoBreaker) [Some demoPlain, None, Some demoBreaker] = Some demoBreaker \<and>
   httpClients (ConfigureHTTPClient (\<lambda>u. Inr u) [Some demoPlain, None, Some demoBreaker]) ''test''
     = Some (entryFor (\<lambda>u. Inr u) demoBreaker) \<and>
   isHystrixClient (buildHTTPClient (\<lambda>u. Inr u) demoBreaker) \<and>
   commandNameOf (buildHTTPClient (\<lambda>u. Inr u) demoBreaker) = Some ''test'' \<and>
   \<not> isHystrixClient (buildHTTPClient (\<lambda>u. Inr u) demoPlain)"
  using engine_kind_by_presence [where rc = demoBreaker
      and rcs = "[Some demoPlain, None, Some demoBreaker]" and up = "\<lambda>u. Inr u"]
    engine_kind_by_presence [where rc = demoPlain
      and rcs = "[Some demoPlain, None, Some demoBreaker]" and up = "\<lambda>u. Inr u"]
  by (simp add: demoBreaker_def demoPlain_def demoHystrix_def zeroRequestConfig_def)

section \<open>Observers\<close>

lemma applyCalls_logger:
  "onceConsistent c \<Longrightarrow>
   c_l (applyCalls calls c) = (case c_l c of Some lg \<Rightarrow> Some lg | None \<Rightarrow> firstLogger calls)"
proof (induction calls c rule: applyCalls.induct)
  case (1 c)
  then show ?case by (simp split: option.splits)
next
  case (2 lg rest c)
  then show ?case
    by (cases lg) (auto simp: WithLogger_def onceConsistent_def split: option.splits)
next
  case (3 mt rest c)
  then show ?case
    by (cases mt) (auto simp: WithMetrics_def onceConsistent_def split: option.splits)
qed

lemma applyCalls_metrics:
  "onceConsistent c \<Longrightarrow>
   c_m (applyCalls calls c) = (case c_m c of Some mt \<Rightarrow> Some mt | None \<Rightarrow> firstMetrics calls)"
proof (induction calls c rule: applyCalls.induct)
  case (1 c)
  then show ?case by (simp split: option.splits)
next
  case (2 lg rest c)
  then show ?case
    by (cases lg) (auto simp: WithLogger_def onceConsistent_def split: option.splits)
next
  case (3 mt rest c)
  then show ?case
    by (cases mt) (auto simp: WithMetrics_def onceConsistent_def split: option.splits)
qed

lemma applyCalls_httpClients: "httpClients (applyCalls calls c) = httpClients c"
proof (induction calls c rule: applyCalls.induct)
  case (1 c)
  show ?case by simp
next
  case (2 lg rest c)
  then show ?case by (simp add: WithLogger_def)
next
  case (3 mt rest c)
  then show ?case by (simp add: WithMetrics_def)
qed

lemma fresh_consistent: "onceConsistent (ConfigureHTTPClient up rcs)"
  by (simp add: onceConsistent_def ConfigureHTTPClient_def)

lemma applyCalls_consistent: "onceConsistent c \<Longrightarrow> onceConsistent (applyCalls calls c)"
proof (induction calls c rule: applyCalls.induct)
  case (1 c)
  then show ?case by simp
next
  case (2 lg rest c)
  then show ?case
    by (cases lg) (auto simp: WithLogger_def onceConsistent_def)
next
  case (3 mt rest c)
  then show ?case
    by (cases mt) (auto simp: WithMetrics_def onceConsistent_def)
qed

text \<open>
  C10. \<open>WithLogger\<close> and \<open>WithMetrics\<close> leave the client as it is when called with nil.
  After any sequence of calls on a new client, the logger is the first non-nil logger of
  the sequence and the metrics sink the first non-nil one; once an observer is set,
  every further call for that slot changes nothing; and a call for one slot never
  touches the other.
\<close>

theorem observers_set_once:
  "WithLogger None c = c \<and> WithMetrics None c = c \<and>
   c_l (applyCalls calls (ConfigureHTTPClient up rcs)) = firstLogger calls \<and>
   c_m (applyCalls calls (ConfigureHTTPClient up rcs)) = firstMetrics calls \<and>
   (firstLogger calls \<noteq> None \<longrightarrow>
      WithLogger lg (applyCalls calls (ConfigureHTTPClient up rcs)) =
        applyCalls calls (ConfigureHTTPClient up rcs)) \<and>
   (firstMetrics calls \<noteq> None \<longrightarrow>
      WithMetrics mt (applyCalls calls (ConfigureHTTPClient up rcs)) =
        applyCalls calls (ConfigureHTTPClient up rcs)) \<and>
   c_m (WithLogger lg c) = c_m c \<and> c_om (WithLogger lg c) = c_om c \<and>
   c_l (WithMetrics mt c) = c_l c \<and> c_ol (WithMetrics mt c) = c_ol c"
proof -
  let ?c = "applyCalls calls (ConfigureHTTPClient up rcs)"
  have cons: "onceConsistent ?c"
    by (rule applyCalls_consistent [OF fresh_consistent])
  have lg: "c_l ?c = firstLogger calls"
    using applyCalls_logger [OF fresh_consistent [of up rcs], of calls]
    by (simp add: ConfigureHTTPClient_def)
  have mt: "c_m ?c = firstMetrics calls"
    using applyCalls_metrics [OF fresh_consistent [of up rcs], of calls]
    by (simp add: ConfigureHTTPClient_def)
  have noop_l: "firstLogger calls \<noteq> None \<longrightarrow> WithLogger lg ?c = ?c"
    using cons lg by (simp add: WithLogger_def onceConsistent_def)
  have noop_m: "firstMetrics calls \<noteq> None \<longrightarrow> WithMetrics mt ?c = ?c"
    using cons mt by (simp add: WithMetrics_def onceConsistent_def)
  have nil: "WithLogger None c = c \<and> WithMetrics None c = c"
    by (simp add: WithLogger_def WithMetrics_def)
  have indep: "c_m (WithLogger lg c) = c_m c \<and> c_om (WithLogger lg c) = c_om c \<and>
      c_l (WithMetrics mt c) = c_l c \<and> c_ol (WithMetrics mt c) = c_ol c"
    by (simp add: WithLogger_def WithMetrics_def)
  from nil lg mt noop_l noop_m indep show ?thesis
    by blast
qed

theorem observers_set_once_witness:
  "firstLogger demoCalls \<noteq> None \<and> firstMetrics demoCalls \<noteq> None \<and>
   c_l (applyCalls demoCalls (ConfigureHTTPClient (\<lambda>u. Inr u) [])) = Some (Logger 1) \<and>
   c_m (applyCalls demoCalls (ConfigureHTTPClient (\<lambda>u. Inr u) [])) = Some (Metrics 7) \<and>
   WithLogger (Some (Logger 3)) (applyCalls demoCalls (ConfigureHTTPClient (\<lambda>u. Inr u) [])) =
     applyCalls demoCalls (ConfigureHTTPClient (\<lambda>u. Inr u) []) \<and>
   WithMetrics (Some (Metrics 9)) (applyCalls demoCalls (ConfigureHTTPClient (\<lambda>u. Inr u) [])) =
     applyCalls demoCalls (ConfigureHTTPClient (\<lambda>u. Inr u) [])"
  using observers_set_once [where c = "ConfigureHTTPClient (\<lambda>u. Inr u) []" and calls = demoCalls
      and up = "\<lambda>u. Inr u" and rcs = "[]" and lg = "Some (Logger 3)" and mt = "Some (Metrics 9)"]
  by (simp add: demoCalls_def WithLogger_def WithMetrics_def ConfigureHTTPClient_def)

section \<open>Defaults of the construction functions\<close>

lemma sdiv10_bounds:
  fixes x :: int
  assumes "- (2 ^ 63) \<le> x" "x < 2 ^ 63"
  shows "- (2 ^ 63) \<le> x sdiv 10 \<and> x sdiv 10 < 2 ^ 63"
proof (cases "0 \<le> x")
  case True
  then have "x sdiv 10 = x div 10"
    by (simp add: signed_divide_int_def sgn_if)
  with True assms show ?thesis by arith
next
  case False
  then have "x sdiv 10 = - ((- x) div 10)"
    by (simp add: signed_divide_int_def sgn_if)
  with False assms show ?thesis by arith
qed

lemma go_div_sint: "sint (go_div a 10) = sint a sdiv 10"
proof -
  have r: "- (2 ^ 63) \<le> sint a" "sint a < 2 ^ 63"
    using sint_ge [of a] sint_lt [of a] by simp_all
  have b: "- (2 ^ 63) \<le> sint a sdiv 10 \<and> sint a sdiv 10 < 2 ^ 63"
    by (rule sdiv10_bounds [OF r])
  have "sint (word_of_int (sint a sdiv 10) :: 64 word) = signed_take_bit 63 (sint a sdiv 10)"
    by (simp add: sint_sbintrunc')
  also have "\<dots> = sint a sdiv 10"
    using b by (intro signed_take_bit_int_eq_self) simp_all
  finally show ?thesis
    by (simp add: go_div_def)
qed

lemma millisOr_missing:
  "map_of cm key = None \<Longrightarrow> millisOr c cm key d = d"
  by (simp add: millisOr_def getConfigOptionInt_def)

lemma NewRequestConfig_fields:
  "timeout (fst (NewRequestConfig c nbp g n (Some cm) h)) = millisOr c cm ''timeoutinmillis'' 0"
  "connectTimeout (fst (NewRequestConfig c nbp g n (Some cm) h)) =
     millisOr c cm ''connecttimeoutinmillis'' (go_div (millisOr c cm ''timeoutinmillis'' 0) 10)"
  "keepAlive (fst (NewRequestConfig c nbp g n (Some cm) h)) =
     millisOr c cm ''keepaliveinmillis'' defaultKeepAlive"
  "idleConnectionTimeout (fst (NewRequestConfig c nbp g n (Some cm) h)) =
     millisOr c cm ''idleconnectiontimeoutinmillis'' defaultIdleConnectionTimeout"
  "retryCount (fst (NewRequestConfig c nbp g n (Some cm) h)) =
     (case getConfigOptionInt c cm ''retrycount'' of Inr i \<Rightarrow> i | Inl _ \<Rightarrow> 1)"
  by (simp_all add: NewRequestConfig_def Let_def split: prod.splits)

lemma retrycount_default:
  "map_of cm ''retrycount'' = None \<or> (\<exists>v e. map_of cm ''retrycount'' = Some v \<and> ToIntE c v = Inl e)
   \<Longrightarrow> (case getConfigOptionInt c cm ''retrycount'' of Inr i \<Rightarrow> i | Inl _ \<Rightarrow> 1) = 1"
  by (auto simp: getConfigOptionInt_def)

text \<open>
  C6. For a non-nil configuration map: a \<open>retrycount\<close> that is missing or that cast
  cannot convert gives a retry count of 1; a missing \<open>connecttimeoutinmillis\<close> gives a
  connect timeout of one tenth of the request timeout (Go's integer division of the
  nanosecond count); a missing \<open>keepaliveinmillis\<close> gives 30 seconds and a missing
  \<open>idleconnectiontimeoutinmillis\<close> 90 seconds; and a hystrix configuration map without
  \<open>sleepwindowinmillis\<close> gives a sleep window of 5000 milliseconds.
\<close>

theorem construction_defaults:
  "(map_of cm ''retrycount'' = None \<or>
      (\<exists>v e. map_of cm ''retrycount'' = Some v \<and> ToIntE c v = Inl e) \<longrightarrow>
      retryCount (fst (NewRequestConfig c nbp g n (Some cm) h)) = 1) \<and>
   (map_of cm ''connecttimeoutinmillis'' = None \<longrightarrow>
      sint (connectTimeout (fst (NewRequestConfig c nbp g n (Some cm) h))) =
        sint (timeout (fst (NewRequestConfig c nbp g n (Some cm) h))) sdiv 10) \<and>
   (map_of cm ''keepaliveinmillis'' = None \<longrightarrow>
      keepAlive (fst (NewRequestConfig c nbp g n (Some cm) h)) = 30000000000) \<and>
   (map_of cm ''idleconnectiontimeoutinmillis'' = None \<longrightarrow>
      idleConnectionTimeout (fst (NewRequestConfig c nbp g n (Some cm) h)) = 90000000000) \<and>
   (map_of hm ''sleepwindowinmillis'' = None \<longrightarrow>
      sleepWindowInMillis (NewHystrixConfig c hm) = 5000)"
proof -
  have r: "map_of cm ''retrycount'' = None \<or>
      (\<exists>v e. map_of cm ''retrycount'' = Some v \<and> ToIntE c v = Inl e) \<longrightarrow>
      retryCount (fst (NewRequestConfig c nbp g n (Some cm) h)) = 1"
    using retrycount_default [of cm c] by (simp only: NewRequestConfig_fields) blast
  have ct: "map_of cm ''connecttimeoutinmillis'' = None \<longrightarrow>
      sint (connectTimeout (fst (NewRequestConfig c nbp g n (Some cm) h))) =
        sint (timeout (fst (NewRequestConfig c nbp g n (Some cm) h))) sdiv 10"
    by (simp add: NewRequestConfig_fields millisOr_missing go_div_sint)
  have ka: "map_of cm ''keepaliveinmillis'' = None \<longrightarrow>
      keepAlive (fst (NewRequestConfig c nbp g n (Some cm) h)) = 30000000000"
    by (simp add: NewRequestConfig_fields millisOr_missing defaultKeepAlive_def Second_def)
  have ic: "map_of cm ''idleconnectiontimeoutinmillis'' = None \<longrightarrow>
      idleConnectionTimeout (fst (NewRequestConfig c nbp g n (Some cm) h)) = 90000000000"
    by (simp add: NewRequestConfig_fields millisOr_missing defaultIdleConnectionTimeout_def Second_def)
  have sw: "map_of hm ''sleepwindowinmillis'' = None \<longrightarrow>
      sleepWindowInMillis (NewHystrixConfig c hm) = 5000"
    by (simp add: NewHystrixConfig_def getConfigOptionInt_def defaultSleepWindowInMillis_def)
  from r ct ka ic sw show ?thesis by blast
qed

theorem construction_defaults_witness:
  "(\<exists>v e. map_of demoConfigMap ''retrycount'' = Some v \<and> ToIntE literalCast v = Inl e) \<and>
   map_of demoConfigMap ''connecttimeoutinmillis'' = None \<and>
   map_of demoConfigMap ''keepaliveinmillis'' = None \<and>
   map_of demoConfigMap ''idleconnectiontimeoutinmillis'' = None \<and>
   map_of demoHystrixMap ''sleepwindowinmillis'' = None \<and>
   retryCount (fst (NewRequestConfig literalCast (\<lambda>m. None) 8 ''test'' (Some demoConfigMap) [])) = 1 \<and>
   timeout (fst (NewRequestConfig literalCast (\<lambda>m. None) 8 ''test'' (Some demoConfigMap) [])) = 5000000000 \<and>
   sint (connectTimeout (fst (NewRequestConfig literalCast (\<lambda>m. None) 8 ''test'' (Some demoConfigMap) []))) = 500000000 \<and>
   keepAlive (fst (NewRequestConfig literalCast (\<lambda>m. None) 8 ''test'' (Some demoConfigMap) [])) = 30000000000 \<and>
   idleConnectionTimeout (fst (NewRequestConfig literalCast (\<lambda>m. None) 8 ''test'' (Some demoConfigMap) [])) = 90000000000 \<and>
   sleepWindowInMillis (NewHystrixConfig literalCast demoHystrixMap) = 5000"
proof -
  have hyps: "(\<exists>v e. map_of demoConfigMap ''retrycount'' = Some v \<and> ToIntE literalCast v = Inl e)"
    "map_of demoConfigMap ''connecttimeoutinmillis'' = None"
    "map_of demoConfigMap ''keepaliveinmillis'' = None"
    "map_of demoConfigMap ''idleconnectiontimeoutinmillis'' = None"
    "map_of demoHystrixMap ''sleepwindowinmillis'' = None"
    by (simp_all add: demoConfigMap_def demoHystrixMap_def literalCast_def)
  have t: "timeout (fst (NewRequestConfig literalCast (\<lambda>m. None) 8 ''test'' (Some demoConfigMap) [])) = 5000000000"
    by (simp add: NewRequestConfig_fields millisOr_def getConfigOptionInt_def demoConfigMap_def
        literalCast_def Millisecond_def)
  have s: "sint (5000000000 :: 64 word) sdiv 10 = 500000000"
    by (simp add: signed_divide_int_def)
  from hyps t s
    construction_defaults [where cm = demoConfigMap and c = literalCast and hm = demoHystrixMap
      and nbp = "\<lambda>m. None" and g = 8 and n = "''test''" and h = "[]"]
  show ?thesis by simp
qed

section \<open>Dispatch\<close>

lemma Request_registered:
  "requestConfig (lookupClient c (req_name r)) = Some rc \<Longrightarrow>
   Request w c r h = performRequest w c (lookupClient c (req_name r)) (withDefaults rc r) h"
  by (simp add: Request_def Let_def defaultMethod_def defaultURL_def defaultHeaders_def
      withDefaults_def)

lemma Request_unregistered:
  "requestConfig (lookupClient c (req_name r)) = None \<Longrightarrow>
   Request w c r h =
     (if req_method r = [] \<or> req_url r = [] \<or> headerParams r = None then panicked r h
      else performRequest w c (lookupClient c (req_name r)) r h)"
  by (simp add: Request_def Let_def defaultMethod_def defaultURL_def defaultHeaders_def)

lemma performRequest_state:
  "request_after (performRequest w c client r3 h) = fst (tagged w r3 h)"
  "heap_after (performRequest w c client r3 h) = snd (tagged w r3 h)"
  by (simp_all add: performRequest_def tagged_def requestID_def
      split: prod.split sum.split option.split)

lemma performRequest_rejected:
  "built w r3 h = Inl err \<Longrightarrow>
   outcome (performRequest w c client r3 h) = Return None (Some err) \<and>
   events (performRequest w c client r3 h) = []"
  by (simp add: performRequest_def built_def tagged_def requestID_def split: prod.splits)

lemma performRequest_nil_engine:
  "built w r3 h = Inr req \<Longrightarrow> heimdallClient client = None \<Longrightarrow>
   outcome (performRequest w c client r3 h) = Panic nilDereference \<and>
   events (performRequest w c client r3 h) = []"
  by (simp add: performRequest_def built_def tagged_def requestID_def split: prod.splits)

lemma performRequest_done:
  "built w r3 h = Inr req \<Longrightarrow> heimdallClient client = Some eng \<Longrightarrow>
   outcome (performRequest w c client r3 h) =
     fst (afterDo w c (fst (tagged w r3 h)) (time_Now w 0) (Do w eng req)) \<and>
   events (performRequest w c client r3 h) =
     DoCalled eng req # snd (afterDo w c (fst (tagged w r3 h)) (time_Now w 0) (Do w eng req))"
  by (simp add: performRequest_def built_def tagged_def requestID_def split: prod.splits)

lemma afterDo_no_Do: "DoCalled e q \<notin> set (snd (afterDo w c r s d))"
  by (simp add: afterDo_def logLatencyAndStatusCode_def metricLatencyAndStatusCode_def Let_def
      split: prod.split option.split)

lemma performRequest_Do:
  assumes "DoCalled eng req \<in> set (events (performRequest w c client r3 h))"
  shows "built w r3 h = Inr req \<and> heimdallClient client = Some eng"
proof (cases "built w r3 h")
  case (Inl err)
  with assms show ?thesis by (simp add: performRequest_rejected)
next
  case (Inr q)
  show ?thesis
  proof (cases "heimdallClient client")
    case None
    with Inr assms show ?thesis by (simp add: performRequest_nil_engine)
  next
    case (Some e)
    with Inr assms show ?thesis by (simp add: performRequest_done afterDo_no_Do)
  qed
qed

lemma Request_Do:
  assumes "DoCalled eng req \<in> set (events (Request w c r h))"
  shows "\<exists>r3. Request w c r h = performRequest w c (lookupClient c (req_name r)) r3 h \<and>
           built w r3 h = Inr req \<and> heimdallClient (lookupClient c (req_name r)) = Some eng"
proof (cases "requestConfig (lookupClient c (req_name r))")
  case None
  show ?thesis
  proof (cases "req_method r = [] \<or> req_url r = [] \<or> headerParams r = None")
    case True
    with None assms show ?thesis by (simp add: Request_unregistered panicked_def)
  next
    case False
    with None have "Request w c r h = performRequest w c (lookupClient c (req_name r)) r h"
      by (auto simp: Request_unregistered)
    with assms performRequest_Do show ?thesis by metis
  qed
next
  case (Some rc)
  then have "Request w c r h = performRequest w c (lookupClient c (req_name r)) (withDefaults rc r) h"
    by (rule Request_registered)
  with assms performRequest_Do show ?thesis by metis
qed

text \<open>
  C8. When the engine's \<open>Do\<close> is called and returns neither a response nor an error,
  the dispatch returns no response and the error "unable to fetch response", and the
  call of \<open>Do\<close> is the only call it made: neither the logger nor the metrics sink is
  called.
\<close>

theorem no_response_is_an_error:
  assumes "DoCalled eng req \<in> set (events (Request w c r h))"
    and "Do w eng req = (None, None)"
  shows "outcome (Request w c r h) = Return None (Some (Error ''unable to fetch response'')) \<and>
         events (Request w c r h) = [DoCalled eng req]"
proof -
  from assms(1) obtain r3 where
    eq: "Request w c r h = performRequest w c (lookupClient c (req_name r)) r3 h" and
    b: "built w r3 h = Inr req" and e: "heimdallClient (lookupClient c (req_name r)) = Some eng"
    using Request_Do by blast
  from performRequest_done [OF b e] assms(2) eq show ?thesis
    by (simp add: afterDo_def)
qed

lemma tagged_valid:
  "headerParams r3 = Some a \<Longrightarrow> a < length h \<Longrightarrow>
   tagged w r3 h = (r3, h[a := AList.update requestIDHeader (requestID w r3) (h ! a)])"
  by (simp add: tagged_def SetHeaderParam_def store_def)

lemma tagged_nil:
  "headerParams r3 = None \<Longrightarrow>
   tagged w r3 h =
     (r3\<lparr>headerParams := Some (length h)\<rparr>, h @ [[(requestIDHeader, requestID w r3)]])"
  by (simp add: tagged_def SetHeaderParam_def store_def alloc_def)

lemma tagged_sent:
  "validRef h (headerParams r3) \<Longrightarrow>
   deref (snd (tagged w r3 h)) (headerParams (fst (tagged w r3 h))) =
     AList.update requestIDHeader (requestID w r3) (deref h (headerParams r3))"
  by (cases "headerParams r3") (simp_all add: validRef_def tagged_valid tagged_nil deref_def)

lemma tagged_fields:
  "req_name (fst (tagged w r3 h)) = req_name r3"
  "req_method (fst (tagged w r3 h)) = req_method r3"
  "req_url (fst (tagged w r3 h)) = req_url r3"
  "queryParams (fst (tagged w r3 h)) = queryParams r3"
  "body (fst (tagged w r3 h)) = body r3"
  "ctx (fst (tagged w r3 h)) = ctx r3"
  by (simp_all add: tagged_def SetHeaderParam_def alloc_def split: option.split)

lemma tagged_keeps_ref:
  "headerParams r3 = Some a \<Longrightarrow> headerParams (fst (tagged w r3 h)) = Some a"
  by (simp add: tagged_def SetHeaderParam_def)

lemma tagged_frame:
  assumes "a' < length h"
    and "Some a' = headerParams (fst (tagged w r3 h)) \<longrightarrow> k \<noteq> requestIDHeader"
  shows "map_of (snd (tagged w r3 h) ! a') k = map_of (h ! a') k"
proof (cases "headerParams r3")
  case None
  with assms(1) show ?thesis by (simp add: tagged_nil nth_append)
next
  case (Some a)
  show ?thesis
  proof (cases "a < length h")
    case True
    with Some assms show ?thesis
      by (cases "a' = a") (simp_all add: tagged_valid update_conv')
  next
    case False
    with Some show ?thesis by (simp add: tagged_def SetHeaderParam_def store_def)
  qed
qed

lemma withDefaults_fields:
  "req_name (withDefaults rc r) = req_name r"
  "queryParams (withDefaults rc r) = queryParams r"
  "body (withDefaults rc r) = body r"
  "ctx (withDefaults rc r) = ctx r"
  "req_method (withDefaults rc r) = (if req_method r = [] then method rc else req_method r)"
  "req_url (withDefaults rc r) = (if req_url r = [] then url rc else req_url r)"
  "headerParams (withDefaults rc r) = (if headerParams r = None then headers rc else headerParams r)"
  by (simp_all add: withDefaults_def)

lemma Request_cases:
  obtains (panic) "Request w c r h = panicked r h"
      "requestConfig (lookupClient c (req_name r)) = None"
      "req_method r = [] \<or> req_url r = [] \<or> headerParams r = None"
    | (bare) "Request w c r h = performRequest w c (lookupClient c (req_name r)) r h"
      "requestConfig (lookupClient c (req_name r)) = None"
      "req_method r \<noteq> []" "req_url r \<noteq> []" "headerParams r \<noteq> None"
    | (filled) rc where "Request w c r h =
        performRequest w c (lookupClient c (req_name r)) (withDefaults rc r) h"
      "requestConfig (lookupClient c (req_name r)) = Some rc"
proof (cases "requestConfig (lookupClient c (req_name r))")
  case None
  show ?thesis
  proof (cases "req_method r = [] \<or> req_url r = [] \<or> headerParams r = None")
    case True
    with None have eq: "Request w c r h = panicked r h"
      by (simp add: Request_unregistered)
    show ?thesis by (rule panic [OF eq None True])
  next
    case False
    with None have eq: "Request w c r h = performRequest w c (lookupClient c (req_name r)) r h"
      by (auto simp: Request_unregistered)
    from False show ?thesis by (intro bare [OF eq None]) simp_all
  qed
next
  case (Some rc)
  show ?thesis
    by (rule filled [OF Request_registered [OF Some] Some])
qed

lemma requestID_withDefaults: "requestID w (withDefaults rc r) = requestID w r"
  by (simp add: requestID_def withDefaults_fields)

lemma built_eq:
  "built w r3 h =
     getRequest (rejectRequest w) (snd (tagged w r3 h)) (ctx r3) (req_method r3) (req_url r3)
       (queryParams r3) (headerParams (fst (tagged w r3 h))) (body r3)"
  by (simp add: built_def case_prod_beta tagged_fields)

lemma built_Inl:
  "rejectRequest w (req_method r3) (req_url r3) = Some e \<Longrightarrow> built w r3 h = Inl e"
  by (simp add: built_eq getRequest_def http_NewRequest_def)

lemma built_Inr:
  "rejectRequest w (req_method r3) (req_url r3) = None \<Longrightarrow> \<exists>req. built w r3 h = Inr req"
  by (simp add: built_eq getRequest_def http_NewRequest_def Let_def)

lemma built_wire:
  "built w r3 h = Inr req \<Longrightarrow>
   Header req =
     addHeaders (entries (deref (snd (tagged w r3 h)) (headerParams (fst (tagged w r3 h)))))
       (\<lambda>_. {#})"
  by (auto simp: built_eq getRequest_def http_NewRequest_def Let_def split: option.splits)

lemma addHeaders_values:
  "addHeaders es hdr K =
     image_mset snd (filter_mset (\<lambda>e. CanonicalMIMEHeaderKey (fst e) = K) (mset es)) + hdr K"
proof (induction es arbitrary: hdr)
  case Nil
  show ?case by simp
next
  case (Cons e es)
  obtain k v where e: "e = (k, v)" by (cases e)
  show ?case
    by (simp add: e Cons.IH Header_Add_def)
qed

lemma addHeaders_wire: "addHeaders (entries m) (\<lambda>_. {#}) K = wireValues m K"
  by (simp add: addHeaders_values wireValues_def)

text \<open>The header that the loop of \<open>getRequest\<close> builds does not depend on the order of the range.\<close>

lemma addHeaders_order: "mset es = mset es' \<Longrightarrow> addHeaders es hdr = addHeaders es' hdr"
  by (rule ext) (simp add: addHeaders_values)

lemma single_entry:
  "distinct (map fst es) \<Longrightarrow> map_of es k = Some v \<Longrightarrow>
   filter (\<lambda>e. fst e = k) es = [(k, v)]"
proof (induction es)
  case Nil
  then show ?case by simp
next
  case (Cons e es)
  obtain k' v' where e: "e = (k', v')" by (cases e)
  show ?case
  proof (cases "k' = k")
    case True
    with Cons.prems e have "v' = v" and "k \<notin> fst ` set es" by auto
    then have "filter (\<lambda>e. fst e = k) es = []"
      by (auto simp: filter_empty_conv)
    with True e \<open>v' = v\<close> show ?thesis by simp
  next
    case False
    with Cons e show ?thesis by simp
  qed
qed

lemma entries_props:
  "distinct (map fst (entries m))" "map_of (entries m) = map_of m" "set (entries m) \<subseteq> set m"
proof -
  show "distinct (map fst (entries m))" by (simp add: entries_def distinct_clearjunk)
  show "map_of (entries m) = map_of m" by (simp add: entries_def map_of_clearjunk)
  show "set (entries m) \<subseteq> set m"
  proof
    fix e assume "e \<in> set (entries m)"
    then have "(fst e, snd e) \<in> set (entries m)" by simp
    with \<open>distinct (map fst (entries m))\<close> have "map_of (entries m) (fst e) = Some (snd e)"
      by (simp only: map_of_eq_Some_iff)
    then have "map_of m (fst e) = Some (snd e)"
      by (simp add: entries_def map_of_clearjunk)
    then show "e \<in> set m" by (cases e) (auto dest: map_of_SomeD)
  qed
qed

lemma wire_present:
  assumes "map_of m k = Some v"
  shows "v \<in># wireValues m (CanonicalMIMEHeaderKey k)"
proof -
  from assms have "map_of (entries m) k = Some v" by (simp add: entries_props)
  then have "(k, v) \<in> set (entries m)" by (rule map_of_SomeD)
  then have "(k, v) \<in># filter_mset
      (\<lambda>e. CanonicalMIMEHeaderKey (fst e) = CanonicalMIMEHeaderKey k) (mset (entries m))"
    by simp
  then show ?thesis
    unfolding wireValues_def by force
qed

lemma wire_once:
  assumes "map_of m requestIDHeader = Some v" and "\<not> collides m"
  shows "wireValues m (CanonicalMIMEHeaderKey requestIDHeader) = {#v#}"
proof -
  have same: "\<And>e. e \<in> set (entries m) \<Longrightarrow>
      (CanonicalMIMEHeaderKey (fst e) = CanonicalMIMEHeaderKey requestIDHeader) =
      (fst e = requestIDHeader)"
    using assms(2) entries_props(3) [of m] by (auto simp: collides_def list_ex_iff)
  have "filter (\<lambda>e. CanonicalMIMEHeaderKey (fst e) = CanonicalMIMEHeaderKey requestIDHeader)
          (entries m) = filter (\<lambda>e. fst e = requestIDHeader) (entries m)"
    by (rule filter_cong) (simp_all add: same)
  also have "\<dots> = [(requestIDHeader, v)]"
    by (rule single_entry) (simp_all add: entries_props assms(1))
  finally have "filter_mset
      (\<lambda>e. CanonicalMIMEHeaderKey (fst e) = CanonicalMIMEHeaderKey requestIDHeader)
      (mset (entries m)) = {#(requestIDHeader, v)#}"
    by (simp flip: mset_filter)
  then show ?thesis by (simp add: wireValues_def)
qed

lemma Request_sent:
  assumes "validRef h (headerParams r)"
    and "\<And>rc. requestConfig (lookupClient c (req_name r)) = Some rc \<Longrightarrow> validRef h (headers rc)"
  shows "outcome (Request w c r h) = Panic nilDereference \<and> events (Request w c r h) = [] \<or>
         sentHeaders (Request w c r h) =
           AList.update requestIDHeader (requestID w r)
             (deref h (case requestConfig (lookupClient c (req_name r)) of
                         None \<Rightarrow> headerParams r
                       | Some rc \<Rightarrow> if headerParams r = None then headers rc else headerParams r))"
proof (cases rule: Request_cases [of w c r h])
  case panic
  then show ?thesis by (simp add: panicked_def)
next
  case bare
  with assms(1) show ?thesis
    by (simp add: sentHeaders_def performRequest_state tagged_sent)
next
  case (filled rc)
  from assms filled(2) have "validRef h (headerParams (withDefaults rc r))"
    by (simp add: withDefaults_fields)
  with filled show ?thesis
    by (simp add: sentHeaders_def performRequest_state tagged_sent requestID_withDefaults
        withDefaults_fields)
qed

lemma Request_wire:
  assumes "DoCalled eng req \<in> set (events (Request w c r h))"
  shows "Header req K = wireValues (sentHeaders (Request w c r h)) K"
proof -
  from assms obtain r3 where
    eq: "Request w c r h = performRequest w c (lookupClient c (req_name r)) r3 h" and
    b: "built w r3 h = Inr req"
    using Request_Do by blast
  from built_wire [OF b] eq show ?thesis
    by (simp add: sentHeaders_def performRequest_state addHeaders_wire)
qed

lemma canonical_samples:
  "CanonicalMIMEHeaderKey ''X-requestId'' = ''X-Requestid''"
  "CanonicalMIMEHeaderKey ''x-requestid'' = ''X-Requestid''"
  "CanonicalMIMEHeaderKey ''source'' = ''Source''"
  "CanonicalMIMEHeaderKey ''x'' = ''X''"
  by (simp_all add: CanonicalMIMEHeaderKey_def validHeaderFieldByte_def lowers_def uppers_def
      toUpper_def toLower_def Let_def)

lemma demoWorld_fields:
  "rejectRequest (demoWorld d) m u = None" "Do (demoWorld d) e q = d"
  "uuid_NewString (demoWorld d) = ''uuid-1''" "time_Now (demoWorld d) i = 1000000 * int i"
  by (simp_all add: demoWorld_def)

lemmas demo_defs = demoProfile_def demoHeap_def demoClient_def demoRequest_def
  zeroRequestConfig_def ConfigureHTTPClient_def lookupClient_def

lemma demo_lookup:
  "lookupClient demoClient ''test'' =
     \<lparr> heimdallClient = Some (buildHTTPClient (\<lambda>u. Inr u) demoProfile),
       requestConfig = Some demoProfile \<rparr>"
  by (simp add: demo_defs)

lemma demo_tagged:
  "tagged (demoWorld d) (withDefaults demoProfile demoRequest) demoHeap =
     (demoRequest\<lparr>req_method := ''GET'', req_url := ''http://example.test'', headerParams := Some 0\<rparr>,
      [[(''source'', ''internal''), (''X-requestId'', ''uuid-1'')], [(''x'', ''y'')],
       [(''x-requestid'', ''abc'')]])"
  by (simp add: tagged_def SetHeaderParam_def store_def withDefaults_def requestID_def
      getRequestID_def requestIDHeader_def demoWorld_fields demo_defs)

lemma demo_built:
  "built (demoWorld d) (withDefaults demoProfile demoRequest) demoHeap =
     Inr (demoWire (demoHeader ''uuid-1''))"
  unfolding built_eq demo_tagged
  by (simp add: getRequest_def http_NewRequest_def deref_def entries_def
      withDefaults_def demoRequest_def demoProfile_def zeroRequestConfig_def demoWorld_fields
      demoWire_def demoHeader_def Header_Add_def canonical_samples Let_def)

lemma demo_events:
  "events (Request (demoWorld d) demoClient demoRequest demoHeap) =
     DoCalled (buildHTTPClient (\<lambda>u. Inr u) demoProfile)
       (demoWire (demoHeader ''uuid-1'')) #
     snd (afterDo (demoWorld d) demoClient
       (demoRequest\<lparr>req_method := ''GET'', req_url := ''http://example.test'', headerParams := Some 0\<rparr>)
       0 d)"
proof -
  have n: "req_name demoRequest = ''test''" by (simp add: demoRequest_def)
  have rc: "requestConfig (lookupClient demoClient (req_name demoRequest)) = Some demoProfile"
    by (simp add: n demo_lookup)
  have e: "heimdallClient (lookupClient demoClient (req_name demoRequest)) =
      Some (buildHTTPClient (\<lambda>u. Inr u) demoProfile)"
    by (simp add: n demo_lookup)
  show ?thesis
    using performRequest_done [OF demo_built e, of d demoClient]
    by (simp add: Request_registered [OF rc] demo_tagged demoWorld_fields)
qed

theorem no_response_is_an_error_witness:
  "DoCalled (buildHTTPClient (\<lambda>u. Inr u) demoProfile)
       (demoWire (demoHeader ''uuid-1''))
     \<in> set (events (Request (demoWorld (None, None)) demoClient demoRequest demoHeap)) \<and>
   Do (demoWorld (None, None)) (buildHTTPClient (\<lambda>u. Inr u) demoProfile)
       (demoWire (demoHeader ''uuid-1'')) = (None, None) \<and>
   outcome (Request (demoWorld (None, None)) demoClient demoRequest demoHeap) =
     Return None (Some (Error ''unable to fetch response'')) \<and>
   events (Request (demoWorld (None, None)) demoClient demoRequest demoHeap) =
     [DoCalled (buildHTTPClient (\<lambda>u. Inr u) demoProfile)
        (demoWire (demoHeader ''uuid-1''))]"
proof -
  have called: "DoCalled (buildHTTPClient (\<lambda>u. Inr u) demoProfile)
       (demoWire (demoHeader ''uuid-1''))
     \<in> set (events (Request (demoWorld (None, None)) demoClient demoRequest demoHeap))"
    by (simp add: demo_events)
  have silent: "Do (demoWorld (None, None)) (buildHTTPClient (\<lambda>u. Inr u) demoProfile)
       (demoWire (demoHeader ''uuid-1'')) = (None, None)"
    by (simp add: demoWorld_fields)
  from called silent no_response_is_an_error [OF called silent] show ?thesis
    by simp
qed

lemma registered_dispatch:
  assumes "requestConfig (lookupClient c (req_name r)) = Some rc"
    and "heimdallClient (lookupClient c (req_name r)) = Some eng"
    and "built w (withDefaults rc r) h = Inr req"
  shows "events (Request w c r h) =
           DoCalled eng req #
           snd (afterDo w c (fst (tagged w (withDefaults rc r) h)) (time_Now w 0) (Do w eng req))"
    and "outcome (Request w c r h) =
           fst (afterDo w c (fst (tagged w (withDefaults rc r) h)) (time_Now w 0) (Do w eng req))"
    and "request_after (Request w c r h) = fst (tagged w (withDefaults rc r) h)"
    and "heap_after (Request w c r h) = snd (tagged w (withDefaults rc r) h)"
  using performRequest_done [OF assms(3) assms(2), of c]
  by (simp_all add: Request_registered [OF assms(1)] performRequest_state)

lemma demo_registered:
  "req_name r = ''test'' \<Longrightarrow> requestConfig (lookupClient demoClient (req_name r)) = Some demoProfile"
  "req_name r = ''test'' \<Longrightarrow>
     heimdallClient (lookupClient demoClient (req_name r)) =
       Some (buildHTTPClient (\<lambda>u. Inr u) demoProfile)"
  by (simp_all add: demo_lookup)

lemma demo_unregistered: "httpClients demoClient ''missing'' = None"
  by (simp add: demo_defs)

lemma afterDo_ok:
  "afterDo w demoClient r s okAnswer = (Return (Some \<lparr> StatusCode = 200, response_id = 0 \<rparr>) None, [])"
  by (simp add: afterDo_def okAnswer_def logLatencyAndStatusCode_def
      metricLatencyAndStatusCode_def demo_defs)

text \<open>
  C1 as stated fails: a dispatch against a name that is not registered does not return an
  error, it panics.
\<close>

theorem unknown_profile_counterexample:
  "httpClients demoClient (req_name (demoRequest\<lparr>req_name := ''missing''\<rparr>)) = None \<and>
   outcome (Request (demoWorld okAnswer) demoClient (demoRequest\<lparr>req_name := ''missing''\<rparr>) demoHeap) =
     Panic nilDereference"
  by (simp add: demo_unregistered Request_unregistered lookupClient_def
      zeroClientRequestMapping_def panicked_def)
     (simp add: demoRequest_def)

text \<open>
  C1, as amended. A dispatch against a name that is not registered never calls the
  engine or an observer, and returns no response. It is not answered with an error for
  the unknown name: it panics on the nil profile when the call leaves the method, the
  URL or the header map to the profile, and otherwise on the nil engine, unless
  \<open>http.NewRequest\<close> rejects the method or the URL, whose error it then returns.
\<close>

theorem unregistered_dispatch:
  assumes "httpClients c (req_name r) = None"
  shows "events (Request w c r h) = [] \<and>
         (req_method r = [] \<or> req_url r = [] \<or> headerParams r = None \<longrightarrow>
            outcome (Request w c r h) = Panic nilDereference) \<and>
         (req_method r \<noteq> [] \<and> req_url r \<noteq> [] \<and> headerParams r \<noteq> None \<longrightarrow>
            outcome (Request w c r h) =
              (case rejectRequest w (req_method r) (req_url r) of
                 Some e \<Rightarrow> Return None (Some e)
               | None \<Rightarrow> Panic nilDereference))"
proof -
  from assms have z: "requestConfig (lookupClient c (req_name r)) = None"
    "heimdallClient (lookupClient c (req_name r)) = None"
    by (simp_all add: lookupClient_def zeroClientRequestMapping_def)
  show ?thesis
  proof (cases "req_method r = [] \<or> req_url r = [] \<or> headerParams r = None")
    case True
    with z show ?thesis by (auto simp: Request_unregistered panicked_def)
  next
    case False
    with z have eq: "Request w c r h = performRequest w c (lookupClient c (req_name r)) r h"
      by (auto simp: Request_unregistered)
    show ?thesis
    proof (cases "rejectRequest w (req_method r) (req_url r)")
      case None
      then obtain req where "built w r h = Inr req" using built_Inr by blast
      from performRequest_nil_engine [OF this z(2)] False None eq show ?thesis by simp
    next
      case (Some e)
      then have "built w r h = Inl e" by (rule built_Inl)
      from performRequest_rejected [OF this] False Some eq show ?thesis by simp
    qed
  qed
qed

theorem unregistered_dispatch_witness:
  "httpClients demoClient (req_name (overrideRequest\<lparr>req_name := ''missing''\<rparr>)) = None \<and>
   req_method (overrideRequest\<lparr>req_name := ''missing''\<rparr>) \<noteq> [] \<and>
   req_url (overrideRequest\<lparr>req_name := ''missing''\<rparr>) \<noteq> [] \<and>
   headerParams (overrideRequest\<lparr>req_name := ''missing''\<rparr>) \<noteq> None \<and>
   events (Request (demoWorld okAnswer) demoClient (overrideRequest\<lparr>req_name := ''missing''\<rparr>) demoHeap) = [] \<and>
   outcome (Request (demoWorld okAnswer) demoClient (overrideRequest\<lparr>req_name := ''missing''\<rparr>) demoHeap) =
     Panic nilDereference \<and>
   httpClients demoClient (req_name (demoRequest\<lparr>req_name := ''missing''\<rparr>)) = None \<and>
   req_method (demoRequest\<lparr>req_name := ''missing''\<rparr>) = [] \<and>
   events (Request (demoWorld okAnswer) demoClient (demoRequest\<lparr>req_name := ''missing''\<rparr>) demoHeap) = []"
proof -
  have a: "httpClients demoClient (req_name (overrideRequest\<lparr>req_name := ''missing''\<rparr>)) = None"
    "httpClients demoClient (req_name (demoRequest\<lparr>req_name := ''missing''\<rparr>)) = None"
    by (simp_all add: demo_unregistered)
  have f: "req_method (overrideRequest\<lparr>req_name := ''missing''\<rparr>) \<noteq> []"
    "req_url (overrideRequest\<lparr>req_name := ''missing''\<rparr>) \<noteq> []"
    "headerParams (overrideRequest\<lparr>req_name := ''missing''\<rparr>) \<noteq> None"
    "req_method (demoRequest\<lparr>req_name := ''missing''\<rparr>) = []"
    by (simp_all add: overrideRequest_def demoRequest_def)
  from unregistered_dispatch [OF a(1), of "demoWorld okAnswer" demoHeap]
    unregistered_dispatch [OF a(2), of "demoWorld okAnswer" demoHeap] a f
  show ?thesis by (simp add: demoWorld_fields)
qed

section \<open>Headers of a dispatch\<close>

lemma registered_state:
  assumes "requestConfig (lookupClient c (req_name r)) = Some rc"
  shows "request_after (Request w c r h) = fst (tagged w (withDefaults rc r) h)"
    and "heap_after (Request w c r h) = snd (tagged w (withDefaults rc r) h)"
  by (simp_all add: Request_registered [OF assms] performRequest_state)

lemma registered_sent:
  assumes "requestConfig (lookupClient c (req_name r)) = Some rc"
    and "validRef h (headerParams r)" and "validRef h (headers rc)"
  shows "sentHeaders (Request w c r h) =
           AList.update requestIDHeader (requestID w r)
             (deref h (if headerParams r = None then headers rc else headerParams r))"
proof -
  from assms(2,3) have "validRef h (headerParams (withDefaults rc r))"
    by (simp add: withDefaults_fields)
  then show ?thesis
    by (simp add: sentHeaders_def registered_state [OF assms(1)] tagged_sent
        requestID_withDefaults withDefaults_fields)
qed

lemma map_of_ToStringMapString:
  "map_of (ToStringMapString cst hm) k = map_option (ToString cst) (map_of hm k)"
  by (simp add: ToStringMapString_def map_of_map entries_props)

lemma NewRequestConfig_headers:
  assumes "getConfigOptionMap cst cm ''headers'' = Inr hm"
  shows "headers (fst (NewRequestConfig cst nbp g n (Some cm) h0)) = Some (length h0)"
    and "snd (NewRequestConfig cst nbp g n (Some cm) h0) = h0 @ [ToStringMapString cst hm]"
  using assms by (simp_all add: NewRequestConfig_def Let_def alloc_def split: prod.splits)

text \<open>
  C9. When a call without a header map is dispatched against a registered profile that
  has static headers, the request's header map becomes the profile's map itself, and the
  correlation header is written into it: after the dispatch the profile's static header
  map holds the correlation id. A later dispatch without a header map against the same
  profile starts from that map, with the earlier id in it, and overwrites the id with
  its own.
\<close>

theorem static_headers_shared:
  assumes "requestConfig (lookupClient c (req_name r)) = Some rc"
    and "headers rc = Some b" and "b < length h" and "headerParams r = None"
    and "req_name r2 = req_name r" and "headerParams r2 = None"
  shows "headerParams (request_after (Request w c r h)) = headers rc \<and>
         deref (heap_after (Request w c r h)) (headers rc) =
           AList.update requestIDHeader (requestID w r) (deref h (headers rc)) \<and>
         map_of (deref (heap_after (Request w c r h)) (headers rc)) requestIDHeader =
           Some (requestID w r) \<and>
         headerParams (request_after (Request w2 c r2 (heap_after (Request w c r h)))) =
           headers rc \<and>
         sentHeaders (Request w2 c r2 (heap_after (Request w c r h))) =
           AList.update requestIDHeader (requestID w2 r2)
             (AList.update requestIDHeader (requestID w r) (deref h (headers rc)))"
proof -
  have hp: "headerParams (withDefaults rc r) = Some b"
    by (simp add: withDefaults_fields assms(2,4))
  have t: "tagged w (withDefaults rc r) h =
      (withDefaults rc r, h[b := AList.update requestIDHeader (requestID w r) (h ! b)])"
    using tagged_valid [OF hp assms(3), of w] by (simp add: requestID_withDefaults)
  have after: "request_after (Request w c r h) = withDefaults rc r"
    "heap_after (Request w c r h) = h[b := AList.update requestIDHeader (requestID w r) (h ! b)]"
    by (simp_all add: registered_state [OF assms(1)] t)
  have one: "headerParams (request_after (Request w c r h)) = headers rc"
    by (simp add: after hp assms(2))
  have two: "deref (heap_after (Request w c r h)) (headers rc) =
      AList.update requestIDHeader (requestID w r) (deref h (headers rc))"
    by (simp add: after assms(2,3) deref_def)
  have three: "map_of (deref (heap_after (Request w c r h)) (headers rc)) requestIDHeader =
      Some (requestID w r)"
    by (simp add: two update_conv')
  have rc2: "requestConfig (lookupClient c (req_name r2)) = Some rc"
    by (simp add: assms(1,5))
  have v: "validRef (heap_after (Request w c r h)) (headerParams r2)"
    "validRef (heap_after (Request w c r h)) (headers rc)"
    by (simp_all add: validRef_def assms(2,3,6) after)
  have hp2: "headerParams (withDefaults rc r2) = Some b"
    by (simp add: withDefaults_fields assms(2,6))
  have four: "headerParams (request_after (Request w2 c r2 (heap_after (Request w c r h)))) =
      headers rc"
    by (simp add: registered_state [OF rc2] tagged_keeps_ref [OF hp2] assms(2))
  have five: "sentHeaders (Request w2 c r2 (heap_after (Request w c r h))) =
      AList.update requestIDHeader (requestID w2 r2)
        (AList.update requestIDHeader (requestID w r) (deref h (headers rc)))"
    by (simp add: registered_sent [OF rc2 v] assms(6) two)
  from one two three four five show ?thesis by blast
qed

lemma demo_ids:
  "requestID (demoWorld d) demoRequest = ''uuid-1''"
  "requestID (demoWorld d) overrideRequest = ''uuid-1''"
  "requestID (laterWorld d) demoRequest = ''uuid-2''"
  by (simp_all add: requestID_def getRequestID_def demoWorld_def laterWorld_def demoRequest_def
      overrideRequest_def)

lemma demo_valid:
  "validRef demoHeap (headerParams demoRequest)" "validRef demoHeap (headerParams overrideRequest)"
  "validRef demoHeap (headers demoProfile)"
  by (simp_all add: validRef_def demoHeap_def demoRequest_def overrideRequest_def demoProfile_def
      zeroRequestConfig_def)

lemma demo_names: "req_name demoRequest = ''test''" "req_name overrideRequest = ''test''"
  by (simp_all add: demoRequest_def overrideRequest_def)

theorem static_headers_shared_witness:
  "requestConfig (lookupClient demoClient (req_name demoRequest)) = Some demoProfile \<and>
   headers demoProfile = Some 0 \<and> 0 < length demoHeap \<and> headerParams demoRequest = None \<and>
   deref demoHeap (headers demoProfile) = [(''source'', ''internal'')] \<and>
   headerParams (request_after (Request (demoWorld okAnswer) demoClient demoRequest demoHeap)) = Some 0 \<and>
   deref (heap_after (Request (demoWorld okAnswer) demoClient demoRequest demoHeap)) (headers demoProfile) =
     [(''source'', ''internal''), (''X-requestId'', ''uuid-1'')] \<and>
   sentHeaders (Request (laterWorld okAnswer) demoClient demoRequest
       (heap_after (Request (demoWorld okAnswer) demoClient demoRequest demoHeap))) =
     [(''source'', ''internal''), (''X-requestId'', ''uuid-2'')]"
proof -
  have rc: "requestConfig (lookupClient demoClient (req_name demoRequest)) = Some demoProfile"
    by (rule demo_registered [OF demo_names(1)])
  have b: "headers demoProfile = Some 0" "0 < length demoHeap" "headerParams demoRequest = None"
    by (simp_all add: demoProfile_def zeroRequestConfig_def demoHeap_def demoRequest_def)
  have d: "deref demoHeap (headers demoProfile) = [(''source'', ''internal'')]"
    by (simp add: b deref_def) (simp add: demoHeap_def)
  from static_headers_shared [OF rc b refl b(3), of "demoWorld okAnswer" "laterWorld okAnswer"]
    rc b d
  show ?thesis
    by (simp add: demo_ids requestIDHeader_def)
qed

section \<open>What a dispatch writes to the call request\<close>

lemma afterDo_wire: "wireRequests (snd (afterDo w c r s d)) = []"
  by (simp add: afterDo_def logLatencyAndStatusCode_def metricLatencyAndStatusCode_def Let_def
      split: prod.split option.split)

lemma registered_wire:
  assumes "requestConfig (lookupClient c (req_name r)) = Some rc"
    and "heimdallClient (lookupClient c (req_name r)) = Some eng"
    and "rejectRequest w (if req_method r = [] then method rc else req_method r)
           (if req_url r = [] then url rc else req_url r) = None"
  shows "\<exists>req. wireRequests (events (Request w c r h)) = [req] \<and>
           DoCalled eng req \<in> set (events (Request w c r h))"
proof -
  from assms(3) have "rejectRequest w (req_method (withDefaults rc r)) (req_url (withDefaults rc r)) = None"
    by (simp add: withDefaults_fields)
  then obtain req where b: "built w (withDefaults rc r) h = Inr req"
    using built_Inr by blast
  have "wireRequests (events (Request w c r h)) = [req]"
    "DoCalled eng req \<in> set (events (Request w c r h))"
    by (simp_all add: registered_dispatch(1) [OF assms(1,2) b] afterDo_wire)
  then show ?thesis by blast
qed

lemma registered_nil_headers:
  assumes "requestConfig (lookupClient c (req_name r)) = Some rc" and "headerParams r = None"
  shows "headerParams (request_after (Request w c r h)) =
           (case headers rc of Some b \<Rightarrow> Some b | None \<Rightarrow> Some (length h))"
proof (cases "headers rc")
  case None
  then have "headerParams (withDefaults rc r) = None"
    by (simp add: withDefaults_fields assms(2))
  then show ?thesis
    by (simp add: registered_state [OF assms(1)] tagged_nil None)
next
  case (Some b)
  then have "headerParams (withDefaults rc r) = Some b"
    by (simp add: withDefaults_fields assms(2))
  then show ?thesis
    by (simp add: registered_state [OF assms(1)] tagged_keeps_ref Some)
qed

text \<open>
  C7 as stated fails: the call request of \<open>NewRequest("test")\<close>, with no method and no
  headers, comes back from a successful dispatch with the profile's method and with the
  profile's header map.
\<close>

theorem read_only_counterexample:
  "outcome (Request (demoWorld okAnswer) demoClient demoRequest demoHeap) =
     Return (Some \<lparr> StatusCode = 200, response_id = 0 \<rparr>) None \<and>
   req_method demoRequest = [] \<and>
   req_method (request_after (Request (demoWorld okAnswer) demoClient demoRequest demoHeap)) = ''GET'' \<and>
   headerParams demoRequest = None \<and>
   headerParams (request_after (Request (demoWorld okAnswer) demoClient demoRequest demoHeap)) = Some 0"
proof -
  have n: "req_name demoRequest = ''test''" by (simp add: demoRequest_def)
  show ?thesis
    by (simp add: registered_dispatch [OF demo_registered [OF n] demo_built] demo_tagged
        demoWorld_fields afterDo_ok)
       (simp add: demoRequest_def)
qed

text \<open>
  C7, as amended. A dispatch writes to the call request. Against a registered profile, an
  empty method and an empty URL are replaced by the profile's, a nil header map is
  replaced by the profile's static header map, or by a new map when the profile has
  none, and the correlation header is written into the header map. It writes nothing
  else: the name, the reference to the query map, the body and the context stay, a
  method or URL that is not empty stays, a header map that is not nil stays the same map,
  and every entry of every map of the heap stays as it was, except the correlation
  header of the request's header map.
\<close>

theorem request_frame:
  "req_name (request_after (Request w c r h)) = req_name r \<and>
   queryParams (request_after (Request w c r h)) = queryParams r \<and>
   body (request_after (Request w c r h)) = body r \<and>
   ctx (request_after (Request w c r h)) = ctx r \<and>
   (req_method r \<noteq> [] \<longrightarrow> req_method (request_after (Request w c r h)) = req_method r) \<and>
   (req_url r \<noteq> [] \<longrightarrow> req_url (request_after (Request w c r h)) = req_url r) \<and>
   (headerParams r \<noteq> None \<longrightarrow>
      headerParams (request_after (Request w c r h)) = headerParams r) \<and>
   (\<forall>a k. a < length h \<and>
      (Some a = headerParams (request_after (Request w c r h)) \<longrightarrow> k \<noteq> requestIDHeader) \<longrightarrow>
      map_of (heap_after (Request w c r h) ! a) k = map_of (h ! a) k) \<and>
   (\<forall>rc. requestConfig (lookupClient c (req_name r)) = Some rc \<longrightarrow>
      (req_method r = [] \<longrightarrow> req_method (request_after (Request w c r h)) = method rc) \<and>
      (req_url r = [] \<longrightarrow> req_url (request_after (Request w c r h)) = url rc) \<and>
      (headerParams r = None \<and> headers rc \<noteq> None \<longrightarrow>
         headerParams (request_after (Request w c r h)) = headers rc) \<and>
      (headerParams r = None \<and> headers rc = None \<longrightarrow>
         headerParams (request_after (Request w c r h)) = Some (length h) \<and>
         heap_after (Request w c r h) = h @ [[(requestIDHeader, requestID w r)]]) \<and>
      (validRef h (headerParams r) \<and> validRef h (headers rc) \<longrightarrow>
         sentHeaders (Request w c r h) =
           AList.update requestIDHeader (requestID w r)
             (deref h (if headerParams r = None then headers rc else headerParams r))))"
proof -
  have frame: "req_name (request_after (Request w c r h)) = req_name r \<and>
     queryParams (request_after (Request w c r h)) = queryParams r \<and>
     body (request_after (Request w c r h)) = body r \<and>
     ctx (request_after (Request w c r h)) = ctx r \<and>
     (req_method r \<noteq> [] \<longrightarrow> req_method (request_after (Request w c r h)) = req_method r) \<and>
     (req_url r \<noteq> [] \<longrightarrow> req_url (request_after (Request w c r h)) = req_url r) \<and>
     (headerParams r \<noteq> None \<longrightarrow>
        headerParams (request_after (Request w c r h)) = headerParams r) \<and>
     (\<forall>a k. a < length h \<and>
        (Some a = headerParams (request_after (Request w c r h)) \<longrightarrow> k \<noteq> requestIDHeader) \<longrightarrow>
        map_of (heap_after (Request w c r h) ! a) k = map_of (h ! a) k)"
  proof (cases rule: Request_cases [of w c r h])
    case panic
    then show ?thesis by (simp add: panicked_def)
  next
    case bare
    then show ?thesis
      by (auto simp: performRequest_state tagged_fields tagged_keeps_ref tagged_frame)
  next
    case (filled rc)
    then show ?thesis
      by (auto simp: performRequest_state tagged_fields tagged_keeps_ref tagged_frame
          withDefaults_fields)
  qed
  have written: "\<forall>rc. requestConfig (lookupClient c (req_name r)) = Some rc \<longrightarrow>
      (req_method r = [] \<longrightarrow> req_method (request_after (Request w c r h)) = method rc) \<and>
      (req_url r = [] \<longrightarrow> req_url (request_after (Request w c r h)) = url rc) \<and>
      (headerParams r = None \<and> headers rc \<noteq> None \<longrightarrow>
         headerParams (request_after (Request w c r h)) = headers rc) \<and>
      (headerParams r = None \<and> headers rc = None \<longrightarrow>
         headerParams (request_after (Request w c r h)) = Some (length h) \<and>
         heap_after (Request w c r h) = h @ [[(requestIDHeader, requestID w r)]]) \<and>
      (validRef h (headerParams r) \<and> validRef h (headers rc) \<longrightarrow>
         sentHeaders (Request w c r h) =
           AList.update requestIDHeader (requestID w r)
             (deref h (if headerParams r = None then headers rc else headerParams r)))"
  proof (intro allI impI)
    fix rc
    assume rc: "requestConfig (lookupClient c (req_name r)) = Some rc"
    have m: "req_method r = [] \<longrightarrow> req_method (request_after (Request w c r h)) = method rc"
      by (simp add: registered_state [OF rc] tagged_fields withDefaults_fields)
    have u: "req_url r = [] \<longrightarrow> req_url (request_after (Request w c r h)) = url rc"
      by (simp add: registered_state [OF rc] tagged_fields withDefaults_fields)
    have hs: "headerParams r = None \<and> headers rc \<noteq> None \<longrightarrow>
        headerParams (request_after (Request w c r h)) = headers rc"
      using registered_nil_headers [OF rc, of w h] by auto
    have hn: "headerParams r = None \<and> headers rc = None \<longrightarrow>
        headerParams (request_after (Request w c r h)) = Some (length h) \<and>
        heap_after (Request w c r h) = h @ [[(requestIDHeader, requestID w r)]]"
    proof
      assume a: "headerParams r = None \<and> headers rc = None"
      then have "headerParams (withDefaults rc r) = None"
        by (simp add: withDefaults_fields)
      then show "headerParams (request_after (Request w c r h)) = Some (length h) \<and>
          heap_after (Request w c r h) = h @ [[(requestIDHeader, requestID w r)]]"
        by (simp add: registered_state [OF rc] tagged_nil requestID_withDefaults)
    qed
    have s: "validRef h (headerParams r) \<and> validRef h (headers rc) \<longrightarrow>
        sentHeaders (Request w c r h) =
          AList.update requestIDHeader (requestID w r)
            (deref h (if headerParams r = None then headers rc else headerParams r))"
      using registered_sent [OF rc, of h w] by blast
    from m u hs hn s
    show "(req_method r = [] \<longrightarrow> req_method (request_after (Request w c r h)) = method rc) \<and>
      (req_url r = [] \<longrightarrow> req_url (request_after (Request w c r h)) = url rc) \<and>
      (headerParams r = None \<and> headers rc \<noteq> None \<longrightarrow>
         headerParams (request_after (Request w c r h)) = headers rc) \<and>
      (headerParams r = None \<and> headers rc = None \<longrightarrow>
         headerParams (request_after (Request w c r h)) = Some (length h) \<and>
         heap_after (Request w c r h) = h @ [[(requestIDHeader, requestID w r)]]) \<and>
      (validRef h (headerParams r) \<and> validRef h (headers rc) \<longrightarrow>
         sentHeaders (Request w c r h) =
           AList.update requestIDHeader (requestID w r)
             (deref h (if headerParams r = None then headers rc else headerParams r)))"
      by blast
  qed
  from frame written show ?thesis by blast
qed


theorem request_frame_witness:
  "req_method overrideRequest \<noteq> [] \<and> req_url overrideRequest \<noteq> [] \<and>
   headerParams overrideRequest \<noteq> None \<and> 2 < length demoHeap \<and>
   Some 2 \<noteq> headerParams (request_after (Request (demoWorld okAnswer) demoClient overrideRequest demoHeap)) \<and>
   req_method (request_after (Request (demoWorld okAnswer) demoClient overrideRequest demoHeap)) = ''POST'' \<and>
   req_url (request_after (Request (demoWorld okAnswer) demoClient overrideRequest demoHeap)) =
     ''http://other.test'' \<and>
   headerParams (request_after (Request (demoWorld okAnswer) demoClient overrideRequest demoHeap)) = Some 1 \<and>
   queryParams (request_after (Request (demoWorld okAnswer) demoClient overrideRequest demoHeap)) = Some 2 \<and>
   map_of (heap_after (Request (demoWorld okAnswer) demoClient overrideRequest demoHeap) ! 2) ''x-requestid'' =
     Some ''abc'' \<and>
   requestConfig (lookupClient demoClient (req_name demoRequest)) = Some demoProfile \<and>
   req_method demoRequest = [] \<and> req_url demoRequest = [] \<and> headerParams demoRequest = None \<and>
   headers demoProfile \<noteq> None \<and>
   validRef demoHeap (headerParams demoRequest) \<and> validRef demoHeap (headers demoProfile) \<and>
   req_method (request_after (Request (demoWorld okAnswer) demoClient demoRequest demoHeap)) = ''GET'' \<and>
   req_url (request_after (Request (demoWorld okAnswer) demoClient demoRequest demoHeap)) =
     ''http://example.test'' \<and>
   headerParams (request_after (Request (demoWorld okAnswer) demoClient demoRequest demoHeap)) = Some 0 \<and>
   sentHeaders (Request (demoWorld okAnswer) demoClient demoRequest demoHeap) =
     [(''source'', ''internal''), (''X-requestId'', ''uuid-1'')] \<and>
   requestConfig (lookupClient plainClient (req_name plainRequest)) = Some demoPlain \<and>
   headerParams plainRequest = None \<and> headers demoPlain = None \<and>
   headerParams (request_after (Request (demoWorld okAnswer) plainClient plainRequest demoHeap)) = Some 3 \<and>
   heap_after (Request (demoWorld okAnswer) plainClient plainRequest demoHeap) =
     demoHeap @ [[(''X-requestId'', ''uuid-1'')]]"
proof -
  have f: "req_method overrideRequest = ''POST''" "req_url overrideRequest = ''http://other.test''"
    "headerParams overrideRequest = Some 1" "queryParams overrideRequest = Some 2"
    by (simp_all add: overrideRequest_def)
  have h: "length demoHeap = 3" "map_of (demoHeap ! 2) ''x-requestid'' = Some ''abc''"
    by (simp_all add: demoHeap_def)
  note fr1 = request_frame [of "demoWorld okAnswer" demoClient overrideRequest demoHeap]
  from fr1
  have fr: "req_method (request_after (Request (demoWorld okAnswer) demoClient overrideRequest demoHeap)) = ''POST''"
    "req_url (request_after (Request (demoWorld okAnswer) demoClient overrideRequest demoHeap)) =
       ''http://other.test''"
    "headerParams (request_after (Request (demoWorld okAnswer) demoClient overrideRequest demoHeap)) = Some 1"
    "queryParams (request_after (Request (demoWorld okAnswer) demoClient overrideRequest demoHeap)) = Some 2"
    by (simp_all add: f)
  from fr1 have frame: "\<And>a k. a < length demoHeap \<Longrightarrow>
      (Some a = headerParams (request_after (Request (demoWorld okAnswer) demoClient overrideRequest demoHeap))
         \<longrightarrow> k \<noteq> requestIDHeader) \<Longrightarrow>
      map_of (heap_after (Request (demoWorld okAnswer) demoClient overrideRequest demoHeap) ! a) k =
        map_of (demoHeap ! a) k"
    by blast
  have kept: "map_of (heap_after (Request (demoWorld okAnswer) demoClient overrideRequest demoHeap) ! 2) ''x-requestid'' =
      map_of (demoHeap ! 2) ''x-requestid''"
    by (rule frame) (simp_all add: h fr)
  have rc: "requestConfig (lookupClient demoClient (req_name demoRequest)) = Some demoProfile"
    by (rule demo_registered [OF demo_names(1)])
  have d: "req_method demoRequest = []" "req_url demoRequest = []" "headerParams demoRequest = None"
    by (simp_all add: demoRequest_def)
  have p: "headers demoProfile = Some 0" "method demoProfile = ''GET''"
    "url demoProfile = ''http://example.test''"
    "deref demoHeap (Some 0) = [(''source'', ''internal'')]"
    by (simp_all add: demoProfile_def zeroRequestConfig_def deref_def demoHeap_def)
  from request_frame [of "demoWorld okAnswer" demoClient demoRequest demoHeap] rc
  have w1: "(req_method demoRequest = [] \<longrightarrow>
        req_method (request_after (Request (demoWorld okAnswer) demoClient demoRequest demoHeap)) =
          method demoProfile)"
    "(req_url demoRequest = [] \<longrightarrow>
        req_url (request_after (Request (demoWorld okAnswer) demoClient demoRequest demoHeap)) =
          url demoProfile)"
    "(headerParams demoRequest = None \<and> headers demoProfile \<noteq> None \<longrightarrow>
        headerParams (request_after (Request (demoWorld okAnswer) demoClient demoRequest demoHeap)) =
          headers demoProfile)"
    "(validRef demoHeap (headerParams demoRequest) \<and> validRef demoHeap (headers demoProfile) \<longrightarrow>
        sentHeaders (Request (demoWorld okAnswer) demoClient demoRequest demoHeap) =
          AList.update requestIDHeader (requestID (demoWorld okAnswer) demoRequest)
            (deref demoHeap (if headerParams demoRequest = None then headers demoProfile
                             else headerParams demoRequest)))"
    by blast+
  have rc2: "requestConfig (lookupClient plainClient (req_name plainRequest)) = Some demoPlain"
    by (simp add: plainClient_def plainRequest_def demoPlain_def ConfigureHTTPClient_def
        lookupClient_def zeroRequestConfig_def)
  have q: "headerParams plainRequest = None" "headers demoPlain = None"
    "requestID (demoWorld okAnswer) plainRequest = ''uuid-1''"
    by (simp_all add: plainRequest_def demoRequest_def demoPlain_def zeroRequestConfig_def
        requestID_def getRequestID_def demoWorld_fields)
  from request_frame [of "demoWorld okAnswer" plainClient plainRequest demoHeap] rc2
  have w2: "headerParams plainRequest = None \<and> headers demoPlain = None \<longrightarrow>
      headerParams (request_after (Request (demoWorld okAnswer) plainClient plainRequest demoHeap)) =
        Some (length demoHeap) \<and>
      heap_after (Request (demoWorld okAnswer) plainClient plainRequest demoHeap) =
        demoHeap @ [[(requestIDHeader, requestID (demoWorld okAnswer) plainRequest)]]"
    by blast
  from f h fr kept rc d p demo_valid(1,3) w1 w2 rc2 q show ?thesis
    by (simp add: demo_ids requestIDHeader_def)
qed

section \<open>The headers on the wire\<close>

lemma laterWorld_fields:
  "rejectRequest (laterWorld d) m u = None" "Do (laterWorld d) e q = d"
  "uuid_NewString (laterWorld d) = ''uuid-2''" "time_Now (laterWorld d) i = 1000000 * int i"
  by (simp_all add: laterWorld_def demoWorld_def)

lemma wireValues_samples:
  "wireValues [(''x'', ''y''), (''X-requestId'', ''uuid-2'')] ''Source'' = {#}"
  "wireValues [(''x'', ''y''), (''X-requestId'', ''uuid-2'')] ''X'' = {#''y''#}"
  "wireValues [(''x'', ''y''), (''X-requestId'', ''uuid-2'')] ''X-Requestid'' = {#''uuid-2''#}"
  "wireValues [(''source'', ''internal''), (''X-requestId'', ''uuid-1'')] ''Source'' = {#''internal''#}"
  "wireValues [(''source'', ''internal''), (''X-requestId'', ''uuid-1'')] ''X'' = {#}"
  "wireValues [(''x-requestid'', ''abc''), (''X-requestId'', ''uuid-1'')] ''X-Requestid'' =
     {#''abc'', ''uuid-1''#}"
  by (simp_all add: wireValues_def entries_def canonical_samples)

lemma override_built:
  "built (laterWorld d) (withDefaults demoProfile overrideRequest) demoHeap = Inr overrideWire"
proof -
  have hp: "headerParams (withDefaults demoProfile overrideRequest) = Some 1"
    by (simp add: withDefaults_fields overrideRequest_def)
  have len: "1 < length demoHeap" by (simp add: demoHeap_def)
  have id: "requestID (laterWorld d) (withDefaults demoProfile overrideRequest) = ''uuid-2''"
    by (simp add: requestID_def getRequestID_def withDefaults_fields overrideRequest_def
        demoRequest_def laterWorld_fields)
  show ?thesis
    unfolding built_eq tagged_valid [OF hp len] id
    by (simp add: getRequest_def http_NewRequest_def deref_def entries_def withDefaults_def
        overrideRequest_def demoRequest_def laterWorld_fields overrideWire_def demoHeap_def
        requestIDHeader_def Header_Add_def canonical_samples Let_def)
qed

text \<open>
  C4. For a dispatch against a registered profile, the header map handed to
  \<open>getRequest\<close> is the call's own map with the correlation header set when the call
  has a header map, whatever the profile's static headers are, and the profile's static
  header map with the correlation header set when the call has none: one or the other,
  never both. The wire request carries under each header name exactly the values that
  this map has for it, in no particular order, and there is one wire request when the
  profile has an engine and the method and the URL are accepted. The static headers that
  \<open>NewRequestConfig\<close> stores are the entries of the \<open>headers\<close> map of the configuration,
  each value turned into a string by \<open>cast.ToString\<close>.
\<close>

theorem header_merge_law:
  assumes "requestConfig (lookupClient c (req_name r)) = Some rc"
    and "validRef h (headerParams r)" and "validRef h (headers rc)"
  shows "(headerParams r \<noteq> None \<longrightarrow>
            sentHeaders (Request w c r h) =
              AList.update requestIDHeader (requestID w r) (deref h (headerParams r))) \<and>
         (headerParams r = None \<longrightarrow>
            sentHeaders (Request w c r h) =
              AList.update requestIDHeader (requestID w r) (deref h (headers rc))) \<and>
         (\<forall>eng req K. DoCalled eng req \<in> set (events (Request w c r h)) \<longrightarrow>
            Header req K =
              wireValues (AList.update requestIDHeader (requestID w r)
                (deref h (if headerParams r = None then headers rc else headerParams r))) K) \<and>
         (\<forall>eng. heimdallClient (lookupClient c (req_name r)) = Some eng \<and>
            rejectRequest w (if req_method r = [] then method rc else req_method r)
              (if req_url r = [] then url rc else req_url r) = None \<longrightarrow>
            (\<exists>req. wireRequests (events (Request w c r h)) = [req] \<and>
               DoCalled eng req \<in> set (events (Request w c r h)))) \<and>
         (\<forall>hm. getConfigOptionMap cst cm ''headers'' = Inr hm \<longrightarrow>
            headers (fst (NewRequestConfig cst nbp g n (Some cm) h0)) = Some (length h0) \<and>
            deref (snd (NewRequestConfig cst nbp g n (Some cm) h0))
              (headers (fst (NewRequestConfig cst nbp g n (Some cm) h0))) =
              ToStringMapString cst hm \<and>
            (\<forall>k. map_of (ToStringMapString cst hm) k = map_option (ToString cst) (map_of hm k)))"
proof -
  have sent: "sentHeaders (Request w c r h) =
      AList.update requestIDHeader (requestID w r)
        (deref h (if headerParams r = None then headers rc else headerParams r))"
    by (rule registered_sent [OF assms])
  have wire: "\<forall>eng req K. DoCalled eng req \<in> set (events (Request w c r h)) \<longrightarrow>
      Header req K =
        wireValues (AList.update requestIDHeader (requestID w r)
          (deref h (if headerParams r = None then headers rc else headerParams r))) K"
    using Request_wire [of _ _ w c r h] by (simp only: sent) blast
  have one: "\<forall>eng. heimdallClient (lookupClient c (req_name r)) = Some eng \<and>
      rejectRequest w (if req_method r = [] then method rc else req_method r)
        (if req_url r = [] then url rc else req_url r) = None \<longrightarrow>
      (\<exists>req. wireRequests (events (Request w c r h)) = [req] \<and>
         DoCalled eng req \<in> set (events (Request w c r h)))"
    using registered_wire [OF assms(1)] by blast
  have str: "\<forall>hm. getConfigOptionMap cst cm ''headers'' = Inr hm \<longrightarrow>
      headers (fst (NewRequestConfig cst nbp g n (Some cm) h0)) = Some (length h0) \<and>
      deref (snd (NewRequestConfig cst nbp g n (Some cm) h0))
        (headers (fst (NewRequestConfig cst nbp g n (Some cm) h0))) = ToStringMapString cst hm \<and>
      (\<forall>k. map_of (ToStringMapString cst hm) k = map_option (ToString cst) (map_of hm k))"
    by (simp add: NewRequestConfig_headers deref_def map_of_ToStringMapString)
  from sent have a: "headerParams r \<noteq> None \<longrightarrow>
      sentHeaders (Request w c r h) =
        AList.update requestIDHeader (requestID w r) (deref h (headerParams r))"
    by simp
  from sent have b: "headerParams r = None \<longrightarrow>
      sentHeaders (Request w c r h) =
        AList.update requestIDHeader (requestID w r) (deref h (headers rc))"
    by simp
  from a b wire one str show ?thesis by blast
qed


theorem header_merge_law_witness:
  "requestConfig (lookupClient demoClient (req_name demoRequest)) = Some demoProfile \<and>
   requestConfig (lookupClient demoClient (req_name overrideRequest)) = Some demoProfile \<and>
   validRef demoHeap (headerParams demoRequest) \<and> validRef demoHeap (headerParams overrideRequest) \<and>
   validRef demoHeap (headers demoProfile) \<and>
   headerParams overrideRequest \<noteq> None \<and> headerParams demoRequest = None \<and>
   deref demoHeap (headers demoProfile) = [(''source'', ''internal'')] \<and>
   sentHeaders (Request (laterWorld okAnswer) demoClient overrideRequest demoHeap) =
     [(''x'', ''y''), (''X-requestId'', ''uuid-2'')] \<and>
   sentHeaders (Request (demoWorld okAnswer) demoClient demoRequest demoHeap) =
     [(''source'', ''internal''), (''X-requestId'', ''uuid-1'')] \<and>
   wireRequests (events (Request (laterWorld okAnswer) demoClient overrideRequest demoHeap)) =
     [overrideWire] \<and>
   DoCalled (buildHTTPClient (\<lambda>u. Inr u) demoProfile) overrideWire
     \<in> set (events (Request (laterWorld okAnswer) demoClient overrideRequest demoHeap)) \<and>
   Header overrideWire ''Source'' = {#} \<and> Header overrideWire ''X'' = {#''y''#} \<and>
   Header overrideWire ''X-Requestid'' = {#''uuid-2''#} \<and>
   wireRequests (events (Request (demoWorld okAnswer) demoClient demoRequest demoHeap)) =
     [demoWire (demoHeader ''uuid-1'')] \<and>
   DoCalled (buildHTTPClient (\<lambda>u. Inr u) demoProfile) (demoWire (demoHeader ''uuid-1''))
     \<in> set (events (Request (demoWorld okAnswer) demoClient demoRequest demoHeap)) \<and>
   Header (demoWire (demoHeader ''uuid-1'')) ''Source'' = {#''internal''#} \<and>
   Header (demoWire (demoHeader ''uuid-1'')) ''X'' = {#} \<and>
   getConfigOptionMap literalCast demoHeaderConfig ''headers'' =
     Inr [(''limit'', LInt 10), (''flag'', LBool True)] \<and>
   deref (snd (NewRequestConfig literalCast (\<lambda>m. None) 8 ''test'' (Some demoHeaderConfig) []))
     (headers (fst (NewRequestConfig literalCast (\<lambda>m. None) 8 ''test'' (Some demoHeaderConfig) []))) =
     [(''limit'', ''10''), (''flag'', ''true'')]"
proof -
  have rc: "requestConfig (lookupClient demoClient (req_name demoRequest)) = Some demoProfile"
    "requestConfig (lookupClient demoClient (req_name overrideRequest)) = Some demoProfile"
    by (rule demo_registered [OF demo_names(1)], rule demo_registered [OF demo_names(2)])
  have f: "headerParams overrideRequest = Some 1" "headerParams demoRequest = None"
    "headers demoProfile = Some 0"
    by (simp_all add: overrideRequest_def demoRequest_def demoProfile_def zeroRequestConfig_def)
  have d: "deref demoHeap (Some (Suc 0)) = [(''x'', ''y'')]"
    "deref demoHeap (Some 0) = [(''source'', ''internal'')]"
    by (simp_all add: deref_def demoHeap_def)
  have id2: "requestID (laterWorld okAnswer) overrideRequest = ''uuid-2''"
    by (simp add: requestID_def getRequestID_def laterWorld_fields overrideRequest_def
        demoRequest_def)
  have ev1: "events (Request (demoWorld okAnswer) demoClient demoRequest demoHeap) =
      [DoCalled (buildHTTPClient (\<lambda>u. Inr u) demoProfile) (demoWire (demoHeader ''uuid-1''))]"
    by (simp add: demo_events afterDo_ok)
  have ev2: "events (Request (laterWorld okAnswer) demoClient overrideRequest demoHeap) =
      [DoCalled (buildHTTPClient (\<lambda>u. Inr u) demoProfile) overrideWire]"
    by (simp add: registered_dispatch(1) [OF demo_registered [OF demo_names(2)] override_built]
        laterWorld_fields afterDo_ok)
  have m: "getConfigOptionMap literalCast demoHeaderConfig ''headers'' =
      Inr [(''limit'', LInt 10), (''flag'', LBool True)]"
    by (simp add: getConfigOptionMap_def demoHeaderConfig_def literalCast_def)
  have str: "ToStringMapString literalCast [(''limit'', LInt 10), (''flag'', LBool True)] =
      [(''limit'', ''10''), (''flag'', ''true'')]"
    by (simp add: ToStringMapString_def entries_def ToString_def string_value_def literalCast_def
        itoa_def natToDec.simps)
  note law1 = header_merge_law [OF rc(1) demo_valid(1) demo_valid(3), of "demoWorld okAnswer"
      literalCast demoHeaderConfig "\<lambda>m. None" 8 "''test''" "[]"]
  note law2 = header_merge_law [OF rc(2) demo_valid(2) demo_valid(3), of "laterWorld okAnswer"
      literalCast demoHeaderConfig "\<lambda>m. None" 8 "''test''" "[]"]
  have s1: "sentHeaders (Request (demoWorld okAnswer) demoClient demoRequest demoHeap) =
      [(''source'', ''internal''), (''X-requestId'', ''uuid-1'')]"
    using law1 by (simp add: f d demo_ids requestIDHeader_def)
  have s2: "sentHeaders (Request (laterWorld okAnswer) demoClient overrideRequest demoHeap) =
      [(''x'', ''y''), (''X-requestId'', ''uuid-2'')]"
    using law2 by (simp add: f d id2 requestIDHeader_def)
  have c1: "DoCalled (buildHTTPClient (\<lambda>u. Inr u) demoProfile) (demoWire (demoHeader ''uuid-1''))
      \<in> set (events (Request (demoWorld okAnswer) demoClient demoRequest demoHeap))"
    by (simp add: ev1)
  have c2: "DoCalled (buildHTTPClient (\<lambda>u. Inr u) demoProfile) overrideWire
      \<in> set (events (Request (laterWorld okAnswer) demoClient overrideRequest demoHeap))"
    by (simp add: ev2)
  from law1 c1 have h1: "\<And>K. Header (demoWire (demoHeader ''uuid-1'')) K =
      wireValues [(''source'', ''internal''), (''X-requestId'', ''uuid-1'')] K"
    by (simp add: f d demo_ids requestIDHeader_def)
  from law2 c2 have h2: "\<And>K. Header overrideWire K =
      wireValues [(''x'', ''y''), (''X-requestId'', ''uuid-2'')] K"
    by (simp add: f d id2 requestIDHeader_def)
  have st: "deref (snd (NewRequestConfig literalCast (\<lambda>m. None) 8 ''test'' (Some demoHeaderConfig) []))
     (headers (fst (NewRequestConfig literalCast (\<lambda>m. None) 8 ''test'' (Some demoHeaderConfig) []))) =
     [(''limit'', ''10''), (''flag'', ''true'')]"
    unfolding law1 [THEN conjunct2, THEN conjunct2, THEN conjunct2, THEN conjunct2,
        rule_format, OF m, THEN conjunct2, THEN conjunct1]
    by (rule str)
  from rc demo_valid f d(2) s1 s2 c1 c2 m st show ?thesis
    by (simp add: ev1 ev2 h1 h2 wireValues_samples)
qed

section \<open>The correlation header\<close>

lemma registered_correlation:
  assumes "requestConfig (lookupClient c (req_name r)) = Some rc"
    and "heimdallClient (lookupClient c (req_name r)) = Some eng"
    and "rejectRequest w (if req_method r = [] then method rc else req_method r)
           (if req_url r = [] then url rc else req_url r) = None"
    and "validRef h (headerParams r)" and "validRef h (headers rc)"
  shows "correlationValues (events (Request w c r h)) =
           wireValues (AList.update requestIDHeader (requestID w r)
             (deref h (if headerParams r = None then headers rc else headerParams r)))
             (CanonicalMIMEHeaderKey requestIDHeader)"
proof -
  from registered_wire [OF assms(1,2,3)] obtain req where
    one: "wireRequests (events (Request w c r h)) = [req]" and
    called: "DoCalled eng req \<in> set (events (Request w c r h))"
    by blast
  from one have "correlationValues (events (Request w c r h)) =
      Header req (CanonicalMIMEHeaderKey requestIDHeader)"
    by (simp add: correlationValues_def)
  also have "\<dots> = wireValues (sentHeaders (Request w c r h)) (CanonicalMIMEHeaderKey requestIDHeader)"
    by (rule Request_wire [OF called])
  finally show ?thesis
    by (simp add: registered_sent [OF assms(1,4,5)])
qed

text \<open>
  C5 as stated fails: when the call's header map has the key \<open>x-requestid\<close>, the
  dispatcher adds its own key \<open>X-requestId\<close> to the map, \<open>http.Header.Add\<close> takes both for
  the same header, and the wire request carries two values under it.
\<close>

theorem correlation_once_counterexample:
  "correlationValues
     (events (Request (demoWorld okAnswer) demoClient taggedByCaller demoHeap)) =
     {#''abc'', ''uuid-1''#} \<and>
   size (correlationValues
     (events (Request (demoWorld okAnswer) demoClient taggedByCaller demoHeap))) = 2"
proof -
  have n: "req_name taggedByCaller = ''test''"
    by (simp add: taggedByCaller_def demoRequest_def)
  have v: "validRef demoHeap (headerParams taggedByCaller)"
    by (simp add: validRef_def taggedByCaller_def demoHeap_def)
  have f: "headerParams taggedByCaller = Some 2"
    "requestID (demoWorld okAnswer) taggedByCaller = ''uuid-1''"
    "deref demoHeap (Some 2) = [(''x-requestid'', ''abc'')]"
    by (simp_all add: taggedByCaller_def demoRequest_def requestID_def getRequestID_def
        demoWorld_fields deref_def demoHeap_def)
  have "correlationValues
     (events (Request (demoWorld okAnswer) demoClient taggedByCaller demoHeap)) =
     wireValues [(''x-requestid'', ''abc''), (''X-requestId'', ''uuid-1'')] ''X-Requestid''"
    by (simp add: registered_correlation [OF demo_registered [OF n] _ v demo_valid(3)]
        demoWorld_fields f requestIDHeader_def canonical_samples)
  then show ?thesis by (simp add: wireValues_samples)
qed

text \<open>
  C5, as amended. In every dispatch that reaches the engine, the header map from which the
  wire request is built has the correlation header, with the value stored in the context
  under \<open>id\<close> when there is one and it is a string, and otherwise, also with a nil
  context, with the identifier that \<open>uuid.NewString\<close> returns in this dispatch. The wire
  request carries that value under the correlation header, and carries no other value
  there unless another key of the header map stands for the same header. Of two
  dispatches whose contexts carry no id, the correlation ids are the two identifiers
  that \<open>uuid.NewString\<close> returned: they are distinct when those are, and then neither
  wire request carries the id of the other.
\<close>

theorem correlation_header:
  assumes "validRef h (headerParams r)"
    and "\<And>rc. requestConfig (lookupClient c (req_name r)) = Some rc \<Longrightarrow> validRef h (headers rc)"
    and "DoCalled eng req \<in> set (events (Request w c r h))"
    and "validRef h' (headerParams r')"
    and "\<And>rc. requestConfig (lookupClient c' (req_name r')) = Some rc \<Longrightarrow> validRef h' (headers rc)"
    and "DoCalled eng' req' \<in> set (events (Request w' c' r' h'))"
  shows "map_of (sentHeaders (Request w c r h)) requestIDHeader = Some (requestID w r) \<and>
         requestID w r =
           (case ctx r of
              None \<Rightarrow> uuid_NewString w
            | Some cx \<Rightarrow>
                (case cx idParam of
                   Some (StringValue s) \<Rightarrow> s
                 | _ \<Rightarrow> uuid_NewString w)) \<and>
         requestID w r \<in># Header req (CanonicalMIMEHeaderKey requestIDHeader) \<and>
         (\<not> collides (sentHeaders (Request w c r h)) \<longrightarrow>
            Header req (CanonicalMIMEHeaderKey requestIDHeader) = {#requestID w r#}) \<and>
         (\<not> suppliesID r \<and> \<not> suppliesID r' \<and> uuid_NewString w \<noteq> uuid_NewString w' \<longrightarrow>
            requestID w r \<noteq> requestID w' r' \<and>
            requestID w' r' \<in># Header req' (CanonicalMIMEHeaderKey requestIDHeader) \<and>
            (\<not> collides (sentHeaders (Request w c r h)) \<and>
             \<not> collides (sentHeaders (Request w' c' r' h')) \<longrightarrow>
               requestID w r \<notin># Header req' (CanonicalMIMEHeaderKey requestIDHeader) \<and>
               requestID w' r' \<notin># Header req (CanonicalMIMEHeaderKey requestIDHeader)))"
proof -
  have sent: "\<And>h r c w eng req. validRef h (headerParams r) \<Longrightarrow>
      (\<And>rc. requestConfig (lookupClient c (req_name r)) = Some rc \<Longrightarrow> validRef h (headers rc)) \<Longrightarrow>
      DoCalled eng req \<in> set (events (Request w c r h)) \<Longrightarrow>
      map_of (sentHeaders (Request w c r h)) requestIDHeader = Some (requestID w r)"
  proof -
    fix h r c w eng req
    assume v: "validRef h (headerParams r)"
      and p: "\<And>rc. requestConfig (lookupClient c (req_name r)) = Some rc \<Longrightarrow> validRef h (headers rc)"
      and d: "DoCalled eng req \<in> set (events (Request w c r h))"
    have "outcome (Request w c r h) = Panic nilDereference \<and> events (Request w c r h) = [] \<or>
      sentHeaders (Request w c r h) =
        AList.update requestIDHeader (requestID w r)
          (deref h (case requestConfig (lookupClient c (req_name r)) of
                      None \<Rightarrow> headerParams r
                    | Some rc \<Rightarrow> if headerParams r = None then headers rc else headerParams r))"
      using v p by (rule Request_sent)
    moreover from d have "events (Request w c r h) \<noteq> []" by auto
    ultimately show "map_of (sentHeaders (Request w c r h)) requestIDHeader = Some (requestID w r)"
      by (auto simp: update_conv')
  qed
  have m: "map_of (sentHeaders (Request w c r h)) requestIDHeader = Some (requestID w r)"
    using assms(1) assms(2) assms(3) by (rule sent)
  have m': "map_of (sentHeaders (Request w' c' r' h')) requestIDHeader = Some (requestID w' r')"
    using assms(4) assms(5) assms(6) by (rule sent)
  have wire: "\<And>K. Header req K = wireValues (sentHeaders (Request w c r h)) K"
    by (rule Request_wire [OF assms(3)])
  have wire': "\<And>K. Header req' K = wireValues (sentHeaders (Request w' c' r' h')) K"
    by (rule Request_wire [OF assms(6)])
  have id: "requestID w r =
      (case ctx r of
         None \<Rightarrow> uuid_NewString w
       | Some cx \<Rightarrow> (case cx idParam of Some (StringValue s) \<Rightarrow> s | _ \<Rightarrow> uuid_NewString w))"
    by (simp add: requestID_def getRequestID_def)
  have present: "requestID w r \<in># Header req (CanonicalMIMEHeaderKey requestIDHeader)"
    unfolding wire by (rule wire_present [OF m])
  have present': "requestID w' r' \<in># Header req' (CanonicalMIMEHeaderKey requestIDHeader)"
    unfolding wire' by (rule wire_present [OF m'])
  have once: "\<not> collides (sentHeaders (Request w c r h)) \<longrightarrow>
      Header req (CanonicalMIMEHeaderKey requestIDHeader) = {#requestID w r#}"
    unfolding wire using wire_once [OF m] by blast
  have once': "\<not> collides (sentHeaders (Request w' c' r' h')) \<longrightarrow>
      Header req' (CanonicalMIMEHeaderKey requestIDHeader) = {#requestID w' r'#}"
    unfolding wire' using wire_once [OF m'] by blast
  have gen: "\<And>w r. \<not> suppliesID r \<Longrightarrow> requestID w r = uuid_NewString w"
    by (auto simp: suppliesID_def requestID_def getRequestID_def
        split: option.splits ctx_value.splits)
  have two: "\<not> suppliesID r \<and> \<not> suppliesID r' \<and> uuid_NewString w \<noteq> uuid_NewString w' \<longrightarrow>
      requestID w r \<noteq> requestID w' r' \<and>
      requestID w' r' \<in># Header req' (CanonicalMIMEHeaderKey requestIDHeader) \<and>
      (\<not> collides (sentHeaders (Request w c r h)) \<and>
       \<not> collides (sentHeaders (Request w' c' r' h')) \<longrightarrow>
         requestID w r \<notin># Header req' (CanonicalMIMEHeaderKey requestIDHeader) \<and>
         requestID w' r' \<notin># Header req (CanonicalMIMEHeaderKey requestIDHeader))"
    using gen [of r w] gen [of r' w'] present' once once' by auto
  from m id present once two show ?thesis by blast
qed


lemma demo_heap_after:
  "heap_after (Request (demoWorld okAnswer) demoClient demoRequest demoHeap) = demoHeapAfter"
  by (simp add: registered_dispatch(4) [OF demo_registered [OF demo_names(1)] demo_built]
      demo_tagged demoHeapAfter_def)

lemma later_built:
  "built (laterWorld d) (withDefaults demoProfile demoRequest) demoHeapAfter =
     Inr (demoWire (demoHeader ''uuid-2''))"
proof -
  have hp: "headerParams (withDefaults demoProfile demoRequest) = Some 0"
    by (simp add: withDefaults_fields demoRequest_def demoProfile_def zeroRequestConfig_def)
  have len: "0 < length demoHeapAfter" by (simp add: demoHeapAfter_def)
  have id: "requestID (laterWorld d) (withDefaults demoProfile demoRequest) = ''uuid-2''"
    by (simp add: requestID_withDefaults demo_ids)
  show ?thesis
    unfolding built_eq tagged_valid [OF hp len] id
    by (simp add: getRequest_def http_NewRequest_def deref_def entries_def withDefaults_def
        demoRequest_def demoProfile_def zeroRequestConfig_def laterWorld_fields demoWire_def
        demoHeader_def demoHeapAfter_def requestIDHeader_def Header_Add_def canonical_samples
        Let_def)
qed

lemma tracedRequest_built:
  "built (demoWorld d) (withDefaults demoProfile tracedRequest) demoHeap =
     Inr ((demoWire (demoHeader ''trace-7''))\<lparr>Ctx := ctx tracedRequest\<rparr>)"
proof -
  have hp: "headerParams (withDefaults demoProfile tracedRequest) = Some 0"
    by (simp add: withDefaults_fields tracedRequest_def demoRequest_def demoProfile_def
        zeroRequestConfig_def)
  have len: "0 < length demoHeap" by (simp add: demoHeap_def)
  have id: "requestID (demoWorld d) (withDefaults demoProfile tracedRequest) = ''trace-7''"
    by (simp add: requestID_def getRequestID_def withDefaults_fields tracedRequest_def
        idParam_def)
  show ?thesis
    unfolding built_eq tagged_valid [OF hp len] id
    by (simp add: getRequest_def http_NewRequest_def deref_def entries_def withDefaults_def
        tracedRequest_def demoRequest_def demoProfile_def zeroRequestConfig_def demoWorld_fields
        demoWire_def demoHeader_def demoHeap_def requestIDHeader_def Header_Add_def
        canonical_samples Let_def)
qed

lemma demo_profile_valid:
  "req_name r = ''test'' \<Longrightarrow> length hp = 3 \<Longrightarrow>
   requestConfig (lookupClient demoClient (req_name r)) = Some rc \<Longrightarrow>
   validRef hp (headers rc)"
  by (auto simp: demo_lookup validRef_def demoProfile_def zeroRequestConfig_def)

theorem correlation_header_witness:
  "heap_after (Request (demoWorld okAnswer) demoClient demoRequest demoHeap) = demoHeapAfter \<and>
   validRef demoHeap (headerParams demoRequest) \<and>
   validRef demoHeapAfter (headerParams demoRequest) \<and>
   validRef demoHeap (headerParams tracedRequest) \<and>
   validRef demoHeap (headers demoProfile) \<and> validRef demoHeapAfter (headers demoProfile) \<and>
   requestConfig (lookupClient demoClient (req_name demoRequest)) = Some demoProfile \<and>
   requestConfig (lookupClient demoClient (req_name tracedRequest)) = Some demoProfile \<and>
   DoCalled (buildHTTPClient (\<lambda>u. Inr u) demoProfile) (demoWire (demoHeader ''uuid-1''))
     \<in> set (events (Request (demoWorld okAnswer) demoClient demoRequest demoHeap)) \<and>
   DoCalled (buildHTTPClient (\<lambda>u. Inr u) demoProfile) (demoWire (demoHeader ''uuid-2''))
     \<in> set (events (Request (laterWorld okAnswer) demoClient demoRequest demoHeapAfter)) \<and>
   DoCalled (buildHTTPClient (\<lambda>u. Inr u) demoProfile)
       ((demoWire (demoHeader ''trace-7''))\<lparr>Ctx := ctx tracedRequest\<rparr>)
     \<in> set (events (Request (demoWorld okAnswer) demoClient tracedRequest demoHeap)) \<and>
   \<not> collides (sentHeaders (Request (demoWorld okAnswer) demoClient demoRequest demoHeap)) \<and>
   \<not> collides (sentHeaders (Request (laterWorld okAnswer) demoClient demoRequest demoHeapAfter)) \<and>
   \<not> collides (sentHeaders (Request (demoWorld okAnswer) demoClient tracedRequest demoHeap)) \<and>
   ctx demoRequest = None \<and> \<not> suppliesID demoRequest \<and> suppliesID tracedRequest \<and>
   uuid_NewString (demoWorld okAnswer) \<noteq> uuid_NewString (laterWorld okAnswer) \<and>
   requestID (demoWorld okAnswer) demoRequest = ''uuid-1'' \<and>
   requestID (laterWorld okAnswer) demoRequest = ''uuid-2'' \<and>
   requestID (demoWorld okAnswer) tracedRequest = ''trace-7'' \<and>
   Header (demoWire (demoHeader ''uuid-1'')) ''X-Requestid'' = {#''uuid-1''#} \<and>
   ''uuid-2'' \<in># Header (demoWire (demoHeader ''uuid-2'')) ''X-Requestid'' \<and>
   ''uuid-1'' \<notin># Header (demoWire (demoHeader ''uuid-2'')) ''X-Requestid'' \<and>
   ''uuid-2'' \<notin># Header (demoWire (demoHeader ''uuid-1'')) ''X-Requestid'' \<and>
   Header ((demoWire (demoHeader ''trace-7''))\<lparr>Ctx := ctx tracedRequest\<rparr>) ''X-Requestid'' =
     {#''trace-7''#}"
proof -
  have n: "req_name demoRequest = ''test''" "req_name tracedRequest = ''test''"
    by (simp_all add: tracedRequest_def demoRequest_def)
  have len: "length demoHeap = 3" "length demoHeapAfter = 3"
    by (simp_all add: demoHeap_def demoHeapAfter_def)
  have v: "validRef demoHeap (headerParams demoRequest)"
    "validRef demoHeapAfter (headerParams demoRequest)"
    "validRef demoHeap (headerParams tracedRequest)"
    "validRef demoHeapAfter (headers demoProfile)"
    by (simp_all add: validRef_def tracedRequest_def demoRequest_def demoProfile_def
        zeroRequestConfig_def demoHeapAfter_def)
  have rc: "requestConfig (lookupClient demoClient (req_name demoRequest)) = Some demoProfile"
    "requestConfig (lookupClient demoClient (req_name tracedRequest)) = Some demoProfile"
    by (rule demo_registered [OF n(1)], rule demo_registered [OF n(2)])
  have called1: "DoCalled (buildHTTPClient (\<lambda>u. Inr u) demoProfile) (demoWire (demoHeader ''uuid-1''))
     \<in> set (events (Request (demoWorld okAnswer) demoClient demoRequest demoHeap))"
    by (simp add: demo_events)
  have called2: "DoCalled (buildHTTPClient (\<lambda>u. Inr u) demoProfile) (demoWire (demoHeader ''uuid-2''))
     \<in> set (events (Request (laterWorld okAnswer) demoClient demoRequest demoHeapAfter))"
    by (simp add: registered_dispatch(1) [OF demo_registered [OF n(1)] later_built])
  have called3: "DoCalled (buildHTTPClient (\<lambda>u. Inr u) demoProfile)
       ((demoWire (demoHeader ''trace-7''))\<lparr>Ctx := ctx tracedRequest\<rparr>)
     \<in> set (events (Request (demoWorld okAnswer) demoClient tracedRequest demoHeap))"
    by (simp add: registered_dispatch(1) [OF demo_registered [OF n(2)] tracedRequest_built])
  have ids: "requestID (demoWorld okAnswer) tracedRequest = ''trace-7''"
    "ctx demoRequest = None" "\<not> suppliesID demoRequest" "suppliesID tracedRequest"
    "uuid_NewString (demoWorld okAnswer) \<noteq> uuid_NewString (laterWorld okAnswer)"
    by (simp_all add: requestID_def getRequestID_def tracedRequest_def demoRequest_def idParam_def
        suppliesID_def demoWorld_fields laterWorld_fields)
  have hp: "headerParams demoRequest = None" "headerParams tracedRequest = None"
    "deref demoHeap (headers demoProfile) = [(''source'', ''internal'')]"
    "deref demoHeapAfter (headers demoProfile) =
       [(''source'', ''internal''), (''X-requestId'', ''uuid-1'')]"
    by (simp_all add: tracedRequest_def demoRequest_def demoProfile_def zeroRequestConfig_def
        deref_def demoHeap_def demoHeapAfter_def)
  have s1: "sentHeaders (Request (demoWorld okAnswer) demoClient demoRequest demoHeap) =
      [(''source'', ''internal''), (''X-requestId'', ''uuid-1'')]"
    by (simp add: registered_sent [OF rc(1) v(1) demo_valid(3)] hp demo_ids requestIDHeader_def)
  have s2: "sentHeaders (Request (laterWorld okAnswer) demoClient demoRequest demoHeapAfter) =
      [(''source'', ''internal''), (''X-requestId'', ''uuid-2'')]"
    by (simp add: registered_sent [OF rc(1) v(2) v(4)] hp demo_ids requestIDHeader_def)
  have s3: "sentHeaders (Request (demoWorld okAnswer) demoClient tracedRequest demoHeap) =
      [(''source'', ''internal''), (''X-requestId'', ''trace-7'')]"
    by (simp add: registered_sent [OF rc(2) v(3) demo_valid(3)] hp ids requestIDHeader_def)
  have nc: "\<not> collides [(''source'', ''internal''), (''X-requestId'', ''uuid-1'')]"
    "\<not> collides [(''source'', ''internal''), (''X-requestId'', ''uuid-2'')]"
    "\<not> collides [(''source'', ''internal''), (''X-requestId'', ''trace-7'')]"
    by (simp_all add: collides_def requestIDHeader_def canonical_samples)
  note pair = correlation_header [OF v(1) demo_profile_valid [OF n(1) len(1)] called1
      v(2) demo_profile_valid [OF n(1) len(2)] called2]
  note traced = correlation_header [OF v(3) demo_profile_valid [OF n(2) len(1)] called3
      v(3) demo_profile_valid [OF n(2) len(1)] called3]
  have w1: "Header (demoWire (demoHeader ''uuid-1'')) ''X-Requestid'' = {#''uuid-1''#}"
    using nc(1) pair [THEN conjunct2, THEN conjunct2, THEN conjunct2, THEN conjunct1]
    by (simp add: s1 demo_ids requestIDHeader_def canonical_samples)
  have w2: "''uuid-2'' \<in># Header (demoWire (demoHeader ''uuid-2'')) ''X-Requestid'' \<and>
      ''uuid-1'' \<notin># Header (demoWire (demoHeader ''uuid-2'')) ''X-Requestid'' \<and>
      ''uuid-2'' \<notin># Header (demoWire (demoHeader ''uuid-1'')) ''X-Requestid''"
    using nc(1,2) ids(3,5)
      pair [THEN conjunct2, THEN conjunct2, THEN conjunct2, THEN conjunct2]
    by (simp add: s1 s2 demo_ids requestIDHeader_def canonical_samples)
  have w3: "Header ((demoWire (demoHeader ''trace-7''))\<lparr>Ctx := ctx tracedRequest\<rparr>)
      ''X-Requestid'' = {#''trace-7''#}"
    using nc(3) traced [THEN conjunct2, THEN conjunct2, THEN conjunct2, THEN conjunct1]
    by (simp add: s3 ids requestIDHeader_def canonical_samples)
  from demo_heap_after v demo_valid(3) rc called1 called2 called3 nc ids demo_ids(1,3) w1 w2 w3
  show ?thesis
    by (simp only: s1 s2 s3 simp_thms)
qed

end
